theory Spec2Isabelle
  imports Complex_Main "HOL-Library.Sublist" "HOL-Library.AList"
begin

section \<open>JavaScript values, errors and strings\<close>

text \<open>
  Replies of the language model and of the agent endpoints go through \<open>JSON.parse\<close> and
  are used at TypeScript type \<open>any\<close>. They are modelled as a datatype of JavaScript
  values. An object is the list of its own properties, keys distinct.
\<close>

datatype jsval =
    Undefined
  | Null
  | Bool bool
  | Num rat
  | Str string
  | Arr "jsval list"
  | Obj "(string \<times> jsval) list"

text \<open>The truthiness test behind \<open>!v\<close>, \<open>v || d\<close> and \<open>v ? a : b\<close>.\<close>

fun truthy :: "jsval \<Rightarrow> bool" where
  "truthy Undefined = False"
| "truthy Null = False"
| "truthy (Bool b) = b"
| "truthy (Num n) = (n \<noteq> 0)"
| "truthy (Str s) = (s \<noteq> [])"
| "truthy (Arr xs) = True"
| "truthy (Obj kvs) = True"

text \<open>\<open>a || b\<close> on values.\<close>

definition js_or :: "jsval \<Rightarrow> jsval \<Rightarrow> jsval" where
  "js_or a b = (if truthy a then a else b)"

text \<open>
  Errors in flight. \<open>Error m\<close> is \<open>throw new Error(m)\<close> or a rejected external call
  with message \<open>m\<close>; \<open>TypeError\<close> and \<open>SyntaxError\<close> are raised by the runtime
  (property access on \<open>null\<close>/\<open>undefined\<close>, a call of a non-function, \<open>JSON.parse\<close>).
\<close>

datatype exn = Error string | TypeError | SyntaxError

text \<open>\<open>error.message\<close>; the text of a runtime error depends on the engine, the model
  uses the error's name.\<close>

fun error_message :: "exn \<Rightarrow> string" where
  "error_message (Error m) = m"
| "error_message TypeError = ''TypeError''"
| "error_message SyntaxError = ''SyntaxError''"

text \<open>
  \<open>v.k\<close>: a \<open>TypeError\<close> on \<open>null\<close> and \<open>undefined\<close>, the own property of an
  object, \<open>undefined\<close> otherwise (none of the property names read by the program is a
  built-in property of a string, number, boolean or array).
\<close>

fun member :: "jsval \<Rightarrow> string \<Rightarrow> exn + jsval" where
  "member Undefined k = Inl TypeError"
| "member Null k = Inl TypeError"
| "member (Obj kvs) k = Inr (case map_of kvs k of Some v \<Rightarrow> v | None \<Rightarrow> Undefined)"
| "member v k = Inr Undefined"

text \<open>\<open>v.k\<close> on a value already known not to be \<open>null\<close> or \<open>undefined\<close>.\<close>

definition get_prop :: "jsval \<Rightarrow> string \<Rightarrow> jsval" where
  "get_prop v k = (case member v k of Inl e \<Rightarrow> Undefined | Inr x \<Rightarrow> x)"

text \<open>
  \<open>String.prototype.toLowerCase\<close> on the letters A to Z; every other character is
  left as it is (the messages are taken to be ASCII text).
\<close>

definition toLowerChar :: "char \<Rightarrow> char" where
  "toLowerChar c =
     (case map_of (zip ''ABCDEFGHIJKLMNOPQRSTUVWXYZ'' ''abcdefghijklmnopqrstuvwxyz'') c of
        Some l \<Rightarrow> l
      | None \<Rightarrow> c)"

definition toLowerCase :: "string \<Rightarrow> string" where
  "toLowerCase s = map toLowerChar s"

text \<open>\<open>s.includes(sub)\<close>: \<open>sub\<close> occurs in \<open>s\<close> as a contiguous substring.\<close>

fun str_includes :: "string \<Rightarrow> string \<Rightarrow> bool" where
  "str_includes [] sub = (sub = [])"
| "str_includes (c # cs) sub = (prefix sub (c # cs) \<or> str_includes cs sub)"

text \<open>Decimal text of a natural number, as in \<open>`${n}`\<close>.\<close>

fun digit_char :: "nat \<Rightarrow> char" where
  "digit_char n = (''0123456789'' ! (n mod 10))"

function show_nat :: "nat \<Rightarrow> string" where
  "show_nat n = (if n < 10 then [digit_char n] else show_nat (n div 10) @ [digit_char n])"
  by pat_completeness auto
termination
  by (relation "measure id") auto

text \<open>An optional string under \<open>||\<close>: absent and empty strings are falsy.\<close>

fun str_or :: "string option \<Rightarrow> string \<Rightarrow> string" where
  "str_or None d = d"
| "str_or (Some s) d = (if s = [] then d else s)"

section \<open>The orchestrator: data model\<close>

record RequestContext =
  restaurant_id :: "string option"
  phone :: "string option"
  email :: "string option"
  conversation_id :: "string option"
  session_id :: "string option"
  previous_intent :: "string option"

record AgentRequest =
  message :: string
  req_context :: "RequestContext option"

datatype update_type = ut_fact | ut_preference | ut_context | ut_goal | ut_other

text \<open>
  \<open>MemoryUpdate\<close>. The \<open>value\<close> is of type \<open>any\<close>. \<open>ut_other\<close> stands for a
  \<open>type\<close> string outside the four that the \<open>switch\<close> of \<open>updateMemory\<close> knows.
\<close>

record MemoryUpdate =
  mu_type :: update_type
  mu_key :: string
  mu_value :: jsval
  mu_confidence :: rat
  mu_source :: string
  mu_timestamp :: nat

record AgentResponse =
  response :: jsval
  agent_used :: "string option"
  resp_confidence :: jsval
  intent :: jsval
  next_action :: jsval
  needs_human_handoff :: jsval
  data :: jsval
  resp_tasks :: "nat list option"
  memory_updates :: "MemoryUpdate list option"

datatype task_type = research | action | analysis | communication

datatype task_status = pending | in_progress | completed | failed

text \<open>
  \<open>Task\<close>. Task objects are shared between the array returned by the decomposition,
  the session's task map and the task queue, and are mutated in place; they live in a heap
  and are referred to by address (a \<open>nat\<close>).
\<close>

record Task =
  task_id :: string
  task_type :: task_type
  description :: string
  status :: task_status
  priority :: int
  dependencies :: "string list option"
  result :: "AgentResponse option"
  agent :: "string option"
  created_at :: nat
  updated_at :: nat

datatype role = user | assistant

record HistoryEntry =
  h_role :: role
  h_content :: jsval
  h_timestamp :: nat

record Fact =
  f_value :: jsval
  f_confidence :: rat
  f_source :: string
  f_timestamp :: nat

record Preference =
  p_value :: jsval
  p_confidence :: rat
  p_timestamp :: nat

record Goal =
  g_description :: jsval
  g_status :: jsval
  g_priority :: jsval

text \<open>
  \<open>AgentMemory\<close>. A JavaScript \<open>Map\<close> keeps its keys in insertion order and \<open>set\<close>
  on a key that is present overwrites the value in place: an association list under
  \<open>AList.update\<close>, read with \<open>map_of\<close>.
\<close>

record AgentMemory =
  m_session_id :: string
  conversation_history :: "HistoryEntry list"
  facts :: "(string \<times> Fact) list"
  preferences :: "(string \<times> Preference) list"
  m_context :: "(string \<times> jsval) list"
  goals :: "Goal list"
  tasks :: "(string \<times> nat) list"

text \<open>
  The state of an \<open>AgentOrchestrator\<close>: the session map, the task queue, the heap of
  task objects, and the number of external calls awaited so far.
\<close>

record orch =
  memory :: "(string \<times> AgentMemory) list"
  taskQueue :: "nat list"
  heap :: "Task list"
  tick :: nat

text \<open>
  What is outside the program. Each external call is answered by the outcome that the
  world holds for the current \<open>tick\<close>, and advances the tick; a run of the program with
  any sequence of replies is the run of the model in some world.
  \<^item> \<open>llm_json\<close>: \<open>JSON.parse\<close> of the reply of \<open>llm.invoke\<close>;
  \<^item> \<open>llm_goal\<close>: the same for the goal analysis prompt, the reply read at the shape
    the prompt asks for (\<open>Inl\<close>: the call or the parse threw, or the reply was \<open>null\<close>);
  \<^item> \<open>llm_tasks\<close>: the same for the decomposition prompt, the array read at type
    \<open>Task[]\<close> (\<open>None\<close>: the call, the parse or the \<open>map\<close> over the reply threw);
  \<^item> \<open>llm_updates\<close>: the same for the extraction prompt, \<open>result.updates\<close> read at
    type \<open>MemoryUpdate[]\<close>;
  \<^item> \<open>http\<close>: \<open>fetch\<close> of an agent endpoint followed by \<open>response.json()\<close>;
  \<^item> \<open>clock\<close>: \<open>new Date()\<close> and \<open>Date.now()\<close>;
  \<^item> \<open>ToString\<close>: the conversion of a value in a template string.
\<close>

datatype llm_outcome = LlmError string | LlmUnparsable | LlmJson jsval

record GoalAnalysis =
  is_complex :: jsval
  ga_goal :: string

datatype http_outcome =
    FetchError string
  | HttpNotOk nat string
  | BodyNotJson
  | Body jsval

record world =
  llm_json :: "nat \<Rightarrow> llm_outcome"
  llm_goal :: "nat \<Rightarrow> exn + GoalAnalysis"
  llm_tasks :: "nat \<Rightarrow> Task list option"
  llm_updates :: "nat \<Rightarrow> MemoryUpdate list option"
  http :: "nat \<Rightarrow> http_outcome"
  clock :: "nat \<Rightarrow> nat"
  ToString :: "jsval \<Rightarrow> string"

section \<open>The memory store\<close>

definition new_memory :: "string \<Rightarrow> AgentMemory" where
  "new_memory sid =
     \<lparr> m_session_id = sid, conversation_history = [], facts = [], preferences = [],
       m_context = [], goals = [], tasks = [] \<rparr>"

text \<open>\<open>getOrCreateMemory\<close>: the state with the session present, and the session's memory.\<close>

definition getOrCreateMemory :: "string \<Rightarrow> orch \<Rightarrow> AgentMemory \<times> orch" where
  "getOrCreateMemory sid s =
     (case map_of (memory s) sid of
        Some m \<Rightarrow> (m, s)
      | None \<Rightarrow> (new_memory sid, s\<lparr>memory := AList.update sid (new_memory sid) (memory s)\<rparr>))"

text \<open>\<open>getMemory\<close>.\<close>

definition getMemory :: "string \<Rightarrow> orch \<Rightarrow> AgentMemory option" where
  "getMemory sid s = map_of (memory s) sid"

text \<open>Writing a session's memory object back (the object is mutated in place in the source).\<close>

definition put_memory :: "string \<Rightarrow> AgentMemory \<Rightarrow> orch \<Rightarrow> orch" where
  "put_memory sid m s = s\<lparr>memory := AList.update sid m (memory s)\<rparr>"

text \<open>
  One iteration of the loop of \<open>updateMemory\<close>. A goal update reads
  \<open>update.value.description\<close>, which throws when the value is \<open>null\<close> or \<open>undefined\<close>.
\<close>

definition applyUpdate :: "MemoryUpdate \<Rightarrow> AgentMemory \<Rightarrow> exn + AgentMemory" where
  "applyUpdate u m =
     (case mu_type u of
        ut_fact \<Rightarrow>
          Inr (m\<lparr>facts := AList.update (mu_key u)
                 \<lparr> f_value = mu_value u, f_confidence = mu_confidence u,
                   f_source = mu_source u, f_timestamp = mu_timestamp u \<rparr> (facts m)\<rparr>)
      | ut_preference \<Rightarrow>
          Inr (m\<lparr>preferences := AList.update (mu_key u)
                 \<lparr> p_value = mu_value u, p_confidence = mu_confidence u,
                   p_timestamp = mu_timestamp u \<rparr> (preferences m)\<rparr>)
      | ut_context \<Rightarrow>
          Inr (m\<lparr>m_context := AList.update (mu_key u) (mu_value u) (m_context m)\<rparr>)
      | ut_goal \<Rightarrow>
          (case member (mu_value u) ''description'' of
             Inl e \<Rightarrow> Inl e
           | Inr d \<Rightarrow>
               Inr (m\<lparr>goals := goals m @
                     [\<lparr> g_description = d,
                        g_status = js_or (get_prop (mu_value u) ''status'') (Str ''active''),
                        g_priority = js_or (get_prop (mu_value u) ''priority'') (Num 1) \<rparr>]\<rparr>))
      | ut_other \<Rightarrow> Inr m)"

text \<open>
  The loop of \<open>updateMemory\<close> over the memory object. When an update throws, the updates
  before it stay applied and the ones after it are not reached: the result is the memory
  so far together with the error.
\<close>

fun applyUpdates :: "MemoryUpdate list \<Rightarrow> AgentMemory \<Rightarrow> exn option \<times> AgentMemory" where
  "applyUpdates [] m = (None, m)"
| "applyUpdates (u # us) m =
     (case applyUpdate u m of
        Inl e \<Rightarrow> (Some e, m)
      | Inr m' \<Rightarrow> applyUpdates us m')"

definition updateMemory :: "string \<Rightarrow> MemoryUpdate list \<Rightarrow> orch \<Rightarrow> exn option \<times> orch" where
  "updateMemory sid updates s =
     (let (m, s1) = getOrCreateMemory sid s;
          (e, m') = applyUpdates updates m
      in (e, put_memory sid m' s1))"

text \<open>The entries that \<open>updateMemory\<close> stores for an update of each type.\<close>

definition fact_of :: "MemoryUpdate \<Rightarrow> Fact" where
  "fact_of u = \<lparr> f_value = mu_value u, f_confidence = mu_confidence u,
                 f_source = mu_source u, f_timestamp = mu_timestamp u \<rparr>"

definition preference_of :: "MemoryUpdate \<Rightarrow> Preference" where
  "preference_of u = \<lparr> p_value = mu_value u, p_confidence = mu_confidence u,
                       p_timestamp = mu_timestamp u \<rparr>"

definition goal_of :: "MemoryUpdate \<Rightarrow> Goal" where
  "goal_of u = \<lparr> g_description = get_prop (mu_value u) ''description'',
                 g_status = js_or (get_prop (mu_value u) ''status'') (Str ''active''),
                 g_priority = js_or (get_prop (mu_value u) ''priority'') (Num 1) \<rparr>"

text \<open>The updates on which the loop throws: a goal whose value is \<open>null\<close> or
  \<open>undefined\<close>.\<close>

definition update_throws :: "MemoryUpdate \<Rightarrow> bool" where
  "update_throws u = (mu_type u = ut_goal \<and> (mu_value u = Null \<or> mu_value u = Undefined))"

text \<open>The updates of a list that write the key \<open>k\<close> of the map for type \<open>ty\<close>.\<close>

definition writes :: "update_type \<Rightarrow> string \<Rightarrow> MemoryUpdate list \<Rightarrow> MemoryUpdate list" where
  "writes ty k us = filter (\<lambda>u. mu_type u = ty \<and> mu_key u = k) us"

text \<open>
  The \<open>clear_memory\<close> action of the chat route's \<open>PATCH\<close> handler: the session's memory
  object is fetched with \<open>getMemory\<close> and, when there is one, five of its fields are reset
  in one synchronous block (no \<open>await\<close> between the assignments).
\<close>

definition clear_memory :: "string \<Rightarrow> orch \<Rightarrow> orch" where
  "clear_memory sid s =
     (case getMemory sid s of
        None \<Rightarrow> s
      | Some m \<Rightarrow>
          put_memory sid
            (m\<lparr>conversation_history := [], facts := [], preferences := [],
               m_context := [], goals := []\<rparr>) s)"

section \<open>Routing\<close>

record Routing =
  r_agent :: string
  confidence :: rat
  reasoning :: string

definition fallbackRouting :: "string \<Rightarrow> Routing" where
  "fallbackRouting msg =
     (let messageLower = toLowerCase msg in
      if str_includes messageLower ''campaign''
         \<and> (str_includes messageLower ''create'' \<or> str_includes messageLower ''setup'')
      then \<lparr> r_agent = ''orchestrator'', confidence = 0.7,
             reasoning = ''Complex campaign setup requires orchestration'' \<rparr>
      else if str_includes messageLower ''call'' \<or> str_includes messageLower ''voice''
      then \<lparr> r_agent = ''voice'', confidence = 0.7,
             reasoning = ''Voice-related keyword routing'' \<rparr>
      else if str_includes messageLower ''customer'' \<or> str_includes messageLower ''loyalty''
      then \<lparr> r_agent = ''crm'', confidence = 0.7,
             reasoning = ''CRM-related keyword routing'' \<rparr>
      else if str_includes messageLower ''email'' \<or> str_includes messageLower ''marketing''
      then \<lparr> r_agent = ''campaigns'', confidence = 0.7,
             reasoning = ''Campaign-related keyword routing'' \<rparr>
      else \<lparr> r_agent = ''postgres'', confidence = 0.5,
             reasoning = ''Default restaurant operations routing'' \<rparr>)"

definition validAgents :: "string list" where
  "validAgents = [''orchestrator'', ''voice'', ''crm'', ''campaigns'', ''postgres'', ''tools'']"

text \<open>\<open>validAgents.includes(v)\<close>: strict equality with one of the six names.\<close>

fun is_valid_agent :: "jsval \<Rightarrow> bool" where
  "is_valid_agent (Str a) = (a \<in> set validAgents)"
| "is_valid_agent v = False"

text \<open>
  What \<open>routeToAgent\<close> returns: one of its own routing records, or the parsed reply
  itself (\<open>return result\<close>).
\<close>

datatype route_result = Routed Routing | Reply jsval

definition sessionId_of :: "AgentRequest \<Rightarrow> string" where
  "sessionId_of req =
     (case req_context req of
        None \<Rightarrow> ''default''
      | Some c \<Rightarrow> str_or (session_id c) (str_or (conversation_id c) ''default''))"

text \<open>The \<open>try\<close>/\<open>catch\<close> of \<open>routeToAgent\<close>, on the outcome of the inference call.\<close>

definition route_on :: "llm_outcome \<Rightarrow> string \<Rightarrow> route_result" where
  "route_on out msg =
     (case out of
        LlmError e \<Rightarrow> Routed (fallbackRouting msg)
      | LlmUnparsable \<Rightarrow> Routed (fallbackRouting msg)
      | LlmJson res \<Rightarrow>
          (case member res ''agent'' of
             Inl e \<Rightarrow> Routed (fallbackRouting msg)
           | Inr a \<Rightarrow>
               if \<not> is_valid_agent a
               then Routed \<lparr> r_agent = ''postgres'', confidence = 0.6,
                             reasoning = ''Defaulted to restaurant operations agent'' \<rparr>
               else Reply res))"

definition routeToAgent :: "world \<Rightarrow> AgentRequest \<Rightarrow> orch \<Rightarrow> route_result \<times> orch" where
  "routeToAgent w req s =
     (let (mem, s1) = getOrCreateMemory (sessionId_of req) s;
          out = llm_json w (tick s1)
      in (route_on out (message req), s1\<lparr>tick := tick s1 + 1\<rparr>))"

section \<open>Dispatch and the task executor\<close>

definition push_history :: "string \<Rightarrow> HistoryEntry \<Rightarrow> orch \<Rightarrow> orch" where
  "push_history sid e s =
     (let (m, s1) = getOrCreateMemory sid s
      in put_memory sid (m\<lparr>conversation_history := conversation_history m @ [e]\<rparr>) s1)"

text \<open>\<open>extractMemoryUpdates\<close>: never throws, an empty list on any failure.\<close>

definition extractMemoryUpdates :: "world \<Rightarrow> orch \<Rightarrow> MemoryUpdate list \<times> orch" where
  "extractMemoryUpdates w s =
     (let now = clock w (tick s); s1 = s\<lparr>tick := tick s + 1\<rparr>
      in case llm_updates w (tick s) of
           None \<Rightarrow> ([], s1)
         | Some us \<Rightarrow> (map (\<lambda>u. u\<lparr>mu_timestamp := now\<rparr>) us, s1))"

text \<open>\<open>decomposeGoalIntoTasks\<close>: never throws, a single fallback task on any failure.\<close>

definition fallback_task :: "string \<Rightarrow> nat \<Rightarrow> Task" where
  "fallback_task g now =
     \<lparr> task_id = ''fallback_task'', task_type = action, description = g, status = pending,
       priority = 1, dependencies = None, result = None, agent = Some ''postgres'',
       created_at = now, updated_at = now \<rparr>"

definition decomposeGoalIntoTasks :: "world \<Rightarrow> string \<Rightarrow> orch \<Rightarrow> Task list \<times> orch" where
  "decomposeGoalIntoTasks w g s =
     (let now = clock w (tick s); s1 = s\<lparr>tick := tick s + 1\<rparr>
      in case llm_tasks w (tick s) of
           None \<Rightarrow> ([fallback_task g now], s1)
         | Some ts \<Rightarrow>
             (map (\<lambda>t. t\<lparr>status := pending, created_at := now, updated_at := now\<rparr>) ts, s1))"

text \<open>\<open>routing.agent\<close>.\<close>

fun route_agent :: "route_result \<Rightarrow> string option" where
  "route_agent (Routed r) = Some (r_agent r)"
| "route_agent (Reply v) = (case get_prop v ''agent'' of Str a \<Rightarrow> Some a | _ \<Rightarrow> None)"

text \<open>\<open>`${agent}`\<close> for an agent name that may be \<open>undefined\<close>.\<close>

fun agent_text :: "string option \<Rightarrow> string" where
  "agent_text None = ''undefined''"
| "agent_text (Some a) = a"

text \<open>
  The \<open>switch\<close> of \<open>executeAgent\<close>: the path of the endpoint, or the error of the
  \<open>default\<close> branch. The request body is not modelled: the outcome of the call is the
  world's.
\<close>

definition endpoint_of :: "string option \<Rightarrow> exn + string" where
  "endpoint_of a =
     (if a = Some ''voice'' then Inr ''/api/agents/voice''
      else if a = Some ''crm'' then Inr ''/api/agents/crm''
      else if a = Some ''campaigns'' then Inr ''/api/agents/campaigns''
      else if a = Some ''postgres'' then Inr ''/api/agents/postgres''
      else if a = Some ''tools'' then Inr ''/api/agents/tools''
      else Inl (Error (''Unknown agent type: '' @ agent_text a)))"

text \<open>The response built in the \<open>catch\<close> block of \<open>executeAgent\<close>.\<close>

definition degraded_response :: "string option \<Rightarrow> exn \<Rightarrow> AgentResponse" where
  "degraded_response a e =
     \<lparr> response = Str (''I apologize, but I'm having trouble processing your request '' @
                       ''right now. Please try again or contact us directly.''),
       agent_used = a,
       resp_confidence = Num 0.1,
       intent = Undefined,
       next_action = Undefined,
       needs_human_handoff = Bool True,
       data = Obj [(''error'', Str (error_message e))],
       resp_tasks = None,
       memory_updates = None \<rparr>"

text \<open>
  The \<open>try\<close> block of \<open>executeAgent\<close> for a handler other than the orchestrator. What
  was written to the memory before a \<open>throw\<close> stays written, so the state is returned
  beside the outcome.
\<close>

definition dispatch_try ::
  "world \<Rightarrow> string option \<Rightarrow> AgentRequest \<Rightarrow> orch \<Rightarrow> (exn + AgentResponse) \<times> orch" where
  "dispatch_try w a req s =
     (case endpoint_of a of
        Inl e \<Rightarrow> (Inl e, s)
      | Inr endpoint \<Rightarrow>
          (let s1 = s\<lparr>tick := tick s + 1\<rparr> in
           case http w (tick s) of
             FetchError m \<Rightarrow> (Inl (Error m), s1)
           | HttpNotOk st txt \<Rightarrow>
               (Inl (Error (''Agent '' @ agent_text a @ '' returned '' @ show_nat st @ '': '' @ txt)),
                s1)
           | BodyNotJson \<Rightarrow> (Inl SyntaxError, s1)
           | Body d \<Rightarrow>
               (case member d ''success'' of
                  Inl e \<Rightarrow> (Inl e, s1)
                | Inr ok \<Rightarrow>
                    if \<not> truthy ok
                    then (Inl (Error (if truthy (get_prop d ''error'') then ToString w (get_prop d ''error'')
                                      else ''Agent '' @ agent_text a @
                                           '' returned unsuccessful response'')), s1)
                    else
                      (let agentResponse =
                             js_or (get_prop d ''response'')
                               (js_or (get_prop d ''message'') (Str ''Operation completed successfully''));
                           s2 = push_history (sessionId_of req)
                                  \<lparr> h_role = assistant, h_content = agentResponse,
                                    h_timestamp = clock w (tick s1) \<rparr> s1;
                           (memoryUpdates, s3) = extractMemoryUpdates w s2;
                           (thrown, s4) = updateMemory (sessionId_of req) memoryUpdates s3
                       in case thrown of
                            Some e \<Rightarrow> (Inl e, s4)
                          | None \<Rightarrow>
                              (Inr \<lparr> response = agentResponse,
                                     agent_used = a,
                                     resp_confidence = js_or (get_prop d ''confidence'') (Num 0.8),
                                     intent = get_prop d ''intent'',
                                     next_action = get_prop d ''next_action'',
                                     needs_human_handoff =
                                       js_or (get_prop d ''needs_human_handoff'') (Bool False),
                                     data = d,
                                     resp_tasks = None,
                                     memory_updates = Some memoryUpdates \<rparr>, s4)))))"

text \<open>The \<open>try\<close> block with its \<open>catch\<close>.\<close>

definition dispatch :: "world \<Rightarrow> string option \<Rightarrow> AgentRequest \<Rightarrow> orch \<Rightarrow> AgentResponse \<times> orch" where
  "dispatch w a req s =
     (case dispatch_try w a req s of
        (Inl e, s') \<Rightarrow> (degraded_response a e, s')
      | (Inr r, s') \<Rightarrow> (r, s'))"

text \<open>
  The outcomes of the call to the endpoint on which the \<open>try\<close> block throws: the
  transport fails, the status is not \<open>ok\<close>, the body is not JSON, the body is
  \<open>null\<close>, or its \<open>success\<close> is falsy.
\<close>

definition dispatch_fails :: "http_outcome \<Rightarrow> bool" where
  "dispatch_fails out =
     (case out of
        FetchError m \<Rightarrow> True
      | HttpNotOk st txt \<Rightarrow> True
      | BodyNotJson \<Rightarrow> True
      | Body d \<Rightarrow> (case member d ''success'' of Inl e \<Rightarrow> True | Inr ok \<Rightarrow> \<not> truthy ok))"

text \<open>
  The loop of \<open>executeOrchestrator\<close> that adds the new tasks to the session's task map
  and to the queue. The task objects are allocated at the end of the heap; the result is
  the list of their addresses (the array \<open>tasks\<close>).
\<close>

definition register_tasks :: "string \<Rightarrow> Task list \<Rightarrow> orch \<Rightarrow> nat list \<times> orch" where
  "register_tasks sid ts s =
     (let addrs = [length (heap s) ..< length (heap s) + length ts];
          (m, s1) = getOrCreateMemory sid s;
          m' = m\<lparr>tasks := fold (\<lambda>(t, a) al. AList.update (task_id t) a al) (zip ts addrs) (tasks m)\<rparr>
      in (addrs, (put_memory sid m' s1)\<lparr>taskQueue := taskQueue s1 @ addrs, heap := heap s1 @ ts\<rparr>))"

definition push_goal :: "string \<Rightarrow> string \<Rightarrow> orch \<Rightarrow> orch" where
  "push_goal sid g s =
     (let (m, s1) = getOrCreateMemory sid s
      in put_memory sid
           (m\<lparr>goals := goals m @
                 [\<lparr> g_description = Str g, g_status = Str ''active'', g_priority = Num 1 \<rparr>]\<rparr>) s1)"

text \<open>The predicate of \<open>tasks.find\<close>: \<open>!t.dependencies || t.dependencies.length === 0\<close>.\<close>

definition no_dependencies :: "Task \<Rightarrow> bool" where
  "no_dependencies t = (case dependencies t of None \<Rightarrow> True | Some ds \<Rightarrow> ds = [])"

text \<open>\<open>Array.prototype.find\<close>, as the position of the element found.\<close>

fun first_index :: "('a \<Rightarrow> bool) \<Rightarrow> 'a list \<Rightarrow> nat option" where
  "first_index P [] = None"
| "first_index P (x # xs) = (if P x then Some 0 else map_option Suc (first_index P xs))"

text \<open>The selection of the task to execute: its position in the array \<open>tasks\<close>.\<close>

definition firstTask :: "Task list \<Rightarrow> nat option" where
  "firstTask ts = first_index no_dependencies ts"

text \<open>
  The selection as the specification words it, for comparison with \<open>firstTask\<close>: a
  task is ready iff every entry of its dependency set is the id of a task with status
  \<open>completed\<close>; among the ready tasks the selection is the first, in insertion order,
  of those with the highest priority.
\<close>

definition task_deps :: "Task \<Rightarrow> string list" where
  "task_deps t = (case dependencies t of None \<Rightarrow> [] | Some ds \<Rightarrow> ds)"

definition spec_ready :: "Task list \<Rightarrow> Task \<Rightarrow> bool" where
  "spec_ready ts t =
     list_all (\<lambda>d. list_ex (\<lambda>u. task_id u = d \<and> status u = completed) ts) (task_deps t)"

definition spec_select_ready_task :: "Task list \<Rightarrow> nat option" where
  "spec_select_ready_task ts =
     first_index (\<lambda>t. spec_ready ts t
                      \<and> list_all (\<lambda>u. spec_ready ts u \<longrightarrow> priority u \<le> priority t) ts) ts"

text \<open>
  The execution of the selected task, the block under \<open>if (firstTask)\<close>. \<open>exec\<close> is
  \<open>this.executeAgent\<close>; it gives \<open>None\<close> when the call does not return.
\<close>

definition start_task :: "nat \<Rightarrow> orch \<Rightarrow> orch" where
  "start_task a s = s\<lparr>heap := (heap s)[a := (heap s ! a)\<lparr>status := in_progress\<rparr>]\<rparr>"

definition finish_task :: "nat \<Rightarrow> AgentResponse \<Rightarrow> orch \<Rightarrow> orch" where
  "finish_task a r s =
     s\<lparr>heap := (heap s)[a := (heap s ! a)\<lparr>status := completed, result := Some r\<rparr>]\<rparr>"

definition execute_task ::
  "(string option \<Rightarrow> AgentRequest \<Rightarrow> orch \<Rightarrow> (AgentResponse \<times> orch) option) \<Rightarrow>
   nat \<Rightarrow> AgentRequest \<Rightarrow> orch \<Rightarrow> (AgentResponse \<times> orch) option" where
  "execute_task exec a req s =
     (let s1 = start_task a s;
          taskRequest = \<lparr> message = description (heap s1 ! a), req_context = req_context req \<rparr>
      in case exec (agent (heap s1 ! a)) taskRequest s1 of
           None \<Rightarrow> None
         | Some (r, s2) \<Rightarrow> Some (r, finish_task a r s2))"

text \<open>An \<open>exec\<close> that never frees a task object.\<close>

definition heap_monotone ::
  "(string option \<Rightarrow> AgentRequest \<Rightarrow> orch \<Rightarrow> (AgentResponse \<times> orch) option) \<Rightarrow> bool" where
  "heap_monotone exec =
     (\<forall>a req s r s'. exec a req s = Some (r, s') \<longrightarrow> length (heap s) \<le> length (heap s'))"

fun join_with :: "string \<Rightarrow> string list \<Rightarrow> string" where
  "join_with sep [] = []"
| "join_with sep [x] = x"
| "join_with sep (x # y # ys) = x @ sep @ join_with sep (y # ys)"

definition plan_response :: "world \<Rightarrow> string \<Rightarrow> jsval \<Rightarrow> nat list \<Rightarrow> orch \<Rightarrow> AgentResponse" where
  "plan_response w g executionResult addrs s =
     \<lparr> response = Str (''I've created a plan to '' @ toLowerCase g @ ''. '' @
                       ToString w executionResult @ ''\<newline>\<newline>Next steps: '' @
                       join_with '', '' (map (\<lambda>a. description (heap s ! a)) (take 2 (drop 1 addrs)))),
       agent_used = Some ''orchestrator'',
       resp_confidence = Num 0.9,
       intent = Undefined,
       next_action = Undefined,
       needs_human_handoff = Undefined,
       data = Obj [(''goal'', Str g),
                   (''total_tasks'', Num (of_nat (length addrs))),
                   (''completed_tasks'',
                      Num (of_nat (length (filter (\<lambda>a. status (heap s ! a) = completed) addrs))))],
       resp_tasks = Some addrs,
       memory_updates = None \<rparr>"

definition orchestrator_error_response :: "exn \<Rightarrow> AgentResponse" where
  "orchestrator_error_response e =
     \<lparr> response = Str (''I understand you have a complex request. '' @
                       ''Let me break it down and handle it step by step.''),
       agent_used = Some ''orchestrator'',
       resp_confidence = Num 0.5,
       intent = Undefined,
       next_action = Undefined,
       needs_human_handoff = Undefined,
       data = Obj [(''error'', Str (error_message e))],
       resp_tasks = None,
       memory_updates = None \<rparr>"

text \<open>
  \<open>executeOrchestrator\<close>, with \<open>this.executeAgent\<close> as the parameter \<open>exec\<close>. With the
  replies read at their declared types, only the goal analysis can throw inside the
  \<open>try\<close> block.
\<close>

definition executeOrchestrator ::
  "(string option \<Rightarrow> AgentRequest \<Rightarrow> orch \<Rightarrow> (AgentResponse \<times> orch) option) \<Rightarrow>
   world \<Rightarrow> AgentRequest \<Rightarrow> orch \<Rightarrow> (AgentResponse \<times> orch) option" where
  "executeOrchestrator exec w req s =
     (let sid = sessionId_of req;
          (mem, s0) = getOrCreateMemory sid s;
          s1 = s0\<lparr>tick := tick s0 + 1\<rparr>
      in case llm_goal w (tick s0) of
           Inl e \<Rightarrow> Some (orchestrator_error_response e, s1)
         | Inr goalAnalysis \<Rightarrow>
             if \<not> truthy (is_complex goalAnalysis)
             then (let (routing, s2) = routeToAgent w req s1
                   in exec (route_agent routing) req s2)
             else
               (let (ts, s2) = decomposeGoalIntoTasks w (ga_goal goalAnalysis) s1;
                    (addrs, s3) = register_tasks sid ts s2;
                    s4 = push_goal sid (ga_goal goalAnalysis) s3
                in case firstTask ts of
                     None \<Rightarrow> Some (plan_response w (ga_goal goalAnalysis) (Str []) addrs s4, s4)
                   | Some i \<Rightarrow>
                       (case execute_task exec (addrs ! i) req s4 of
                          None \<Rightarrow> None
                        | Some (r, s5) \<Rightarrow>
                            Some (plan_response w (ga_goal goalAnalysis) (response r) addrs s5, s5))))"

text \<open>
  \<open>executeAgent\<close>. The orchestrator and \<open>executeAgent\<close> call each other, and nothing
  bounds the nesting (a task may be assigned to the orchestrator again): the first argument
  bounds the depth of nested orchestrator calls, and \<open>None\<close> says that the bound was
  reached. A handler other than the orchestrator needs no fuel.
\<close>

primrec executeAgent ::
  "nat \<Rightarrow> world \<Rightarrow> string option \<Rightarrow> AgentRequest \<Rightarrow> orch \<Rightarrow> (AgentResponse \<times> orch) option" where
  "executeAgent 0 w a req s =
     (let s1 = push_history (sessionId_of req)
                 \<lparr> h_role = user, h_content = Str (message req), h_timestamp = clock w (tick s) \<rparr> s
      in if a = Some ''orchestrator'' then None else Some (dispatch w a req s1))"
| "executeAgent (Suc n) w a req s =
     (let s1 = push_history (sessionId_of req)
                 \<lparr> h_role = user, h_content = Str (message req), h_timestamp = clock w (tick s) \<rparr> s
      in if a = Some ''orchestrator'' then executeOrchestrator (executeAgent n w) w req s1
         else Some (dispatch w a req s1))"

section \<open>The toolkits: database, e-mail, SMS\<close>

text \<open>
  \<open>executeQuery\<close> of the Postgres toolkit catches every error of the driver and returns
  it as a value. Its argument here is what the driver did: \<open>Inl m\<close>, it threw with message
  \<open>m\<close>; \<open>Inr (rows, n)\<close>, it returned these rows and this row count.
\<close>

record 'a QueryResult =
  q_success :: bool
  q_data :: "'a list option"
  q_error :: "string option"
  q_rowCount :: "nat option"

definition executeQuery :: "string + ('a list \<times> nat) \<Rightarrow> 'a QueryResult" where
  "executeQuery driver =
     (case driver of
        Inl m \<Rightarrow> \<lparr> q_success = False, q_data = None, q_error = Some m, q_rowCount = None \<rparr>
      | Inr (rows, n) \<Rightarrow>
          \<lparr> q_success = True, q_data = Some rows, q_error = None, q_rowCount = Some n \<rparr>)"

text \<open>\<open>result.data || []\<close>.\<close>

definition data_or_empty :: "'a QueryResult \<Rightarrow> 'a list" where
  "data_or_empty r = (case q_data r of None \<Rightarrow> [] | Some rows \<Rightarrow> rows)"

text \<open>
  \<open>sendEmail\<close> of the e-mail toolkit and \<open>sendSMS\<close> of the Twilio toolkit: both catch
  every error of their client and return \<open>success: false\<close>. The argument is what the
  client did: it threw, or it returned a response object.
\<close>

record EmailMessage =
  em_to :: string
  em_subject :: string
  em_html :: "string option"
  em_text :: "string option"
  em_from :: "string option"

record EmailResult =
  e_success :: bool
  e_messageId :: jsval
  e_error :: jsval

definition sendEmail :: "EmailMessage \<Rightarrow> exn + jsval \<Rightarrow> EmailResult" where
  "sendEmail msg client =
     (case client of
        Inl e \<Rightarrow> \<lparr> e_success = False, e_messageId = Undefined, e_error = Str (error_message e) \<rparr>
      | Inr resp \<Rightarrow>
          (case member resp ''data'' of
             Inl e \<Rightarrow>
               \<lparr> e_success = False, e_messageId = Undefined, e_error = Str (error_message e) \<rparr>
           | Inr d \<Rightarrow>
               \<lparr> e_success = True,
                 e_messageId = (case d of Undefined \<Rightarrow> Undefined | Null \<Rightarrow> Undefined
                                | _ \<Rightarrow> get_prop d ''id''),
                 e_error = get_prop resp ''error'' \<rparr>))"

record SMSMessage =
  sms_to :: string
  sms_body :: string
  sms_from :: "string option"

record SMSResult =
  s_success :: bool
  s_messageId :: jsval
  s_status :: jsval
  s_price :: jsval
  s_direction :: jsval
  s_error :: jsval

definition sendSMS :: "SMSMessage \<Rightarrow> exn + jsval \<Rightarrow> SMSResult" where
  "sendSMS msg client =
     (case client of
        Inl e \<Rightarrow>
          \<lparr> s_success = False, s_messageId = Undefined, s_status = Undefined,
            s_price = Undefined, s_direction = Undefined, s_error = Str (error_message e) \<rparr>
      | Inr m \<Rightarrow>
          (case member m ''sid'' of
             Inl e \<Rightarrow>
               \<lparr> s_success = False, s_messageId = Undefined, s_status = Undefined,
                 s_price = Undefined, s_direction = Undefined, s_error = Str (error_message e) \<rparr>
           | Inr sid \<Rightarrow>
               \<lparr> s_success = True, s_messageId = sid, s_status = get_prop m ''status'',
                 s_price = get_prop m ''price'', s_direction = get_prop m ''direction'',
                 s_error = Undefined \<rparr>))"

section \<open>The campaign workflow: data model\<close>

datatype channel = email_channel | sms_channel | multi_channel

fun channel_text :: "channel option \<Rightarrow> string" where
  "channel_text None = ''undefined''"
| "channel_text (Some email_channel) = ''email''"
| "channel_text (Some sms_channel) = ''sms''"
| "channel_text (Some multi_channel) = ''multi_channel''"

datatype approval = ap_pending | approved | rejected

record CampaignData =
  cd_type :: "channel option"
  target_segments :: "string list option"

record Analysis =
  total_customers :: jsval
  segments :: jsval
  an_preferences :: jsval

text \<open>
  A content variant. The \<open>content\<close> comes out of \<open>JSON.parse\<close> unchecked and
  \<open>personalizeContent\<close> calls \<open>replace\<close> on it, which throws unless it is a string:
  it is kept as a value. The other fields are read at their declared types.
\<close>

record Variant =
  variant_id :: string
  v_subject :: "string option"
  v_content :: jsval
  target_segment :: string

record Results =
  sent :: nat
  delivered :: nat
  failed' :: nat
  errors :: "string list"

record CampaignState =
  campaign_id :: string
  cs_restaurant_id :: string
  goal :: string
  current_step :: string
  steps_completed :: "string list"
  steps_remaining :: "string list"
  campaign_data :: CampaignData
  customer_analysis :: "Analysis option"
  content_variants :: "Variant list option"
  execution_results :: "Results option"
  memory_context :: jsval
  requires_approval :: "bool option"
  approval_status :: "approval option"
  next_actions :: jsval

text \<open>A row of \<open>restaurant_customers\<close>; a \<open>NULL\<close> flag or number reads as false or zero.\<close>

record Customer =
  c_id :: string
  customer_name :: "string option"
  customer_email :: "string option"
  customer_phone :: "string option"
  opt_in_email :: bool
  opt_in_sms :: bool
  loyalty_points :: nat
  visit_count :: nat

text \<open>
  The outside of the campaign workflow, again indexed by the number of external calls made
  so far; the database also sees the statement and its parameters (of a statement other
  than the segment queries the model passes its first words only).
  \<^item> \<open>db_customers\<close>: the driver on a \<open>SELECT\<close> over \<open>restaurant_customers\<close>;
  \<^item> \<open>db_rows\<close>: the driver on any other statement;
  \<^item> \<open>resend\<close>, \<open>twilio\<close>: the e-mail and the SMS client;
  \<^item> \<open>gateway\<close>: \<open>JSON.parse\<close> of the reply of \<open>llm.invoke\<close>;
  \<^item> \<open>gateway_variants\<close>: the same for the content prompt, \<open>contentData.variants\<close> read
    at the declared type of a variant (\<open>None\<close>: the call, the parse or the \<open>map\<close> threw).
\<close>

record cworld =
  db_customers :: "nat \<Rightarrow> string \<Rightarrow> string list \<Rightarrow> string + (Customer list \<times> nat)"
  db_rows :: "nat \<Rightarrow> string \<Rightarrow> string list \<Rightarrow> string + (jsval list \<times> nat)"
  resend :: "nat \<Rightarrow> exn + jsval"
  twilio :: "nat \<Rightarrow> exn + jsval"
  gateway :: "nat \<Rightarrow> llm_outcome"
  gateway_variants :: "nat \<Rightarrow> Variant list option"
  from_email :: "string option"

section \<open>The campaign workflow: nodes\<close>

text \<open>
  \<open>content.replace(/\{name\}/g, r)\<close>: every occurrence of the literal text, from left to
  right, without overlap (the \<open>$\<close> patterns of a replacement string are not modelled).
  The first argument counts the characters of a match still to be skipped.
\<close>

fun replace_from :: "nat \<Rightarrow> string \<Rightarrow> string \<Rightarrow> string \<Rightarrow> string" where
  "replace_from k pat rep [] = []"
| "replace_from (Suc k) pat rep (c # cs) = replace_from k pat rep cs"
| "replace_from 0 pat rep (c # cs) =
     (if pat \<noteq> [] \<and> prefix pat (c # cs)
      then rep @ replace_from (length pat - 1) pat rep cs
      else c # replace_from 0 pat rep cs)"

definition replace_all :: "string \<Rightarrow> string \<Rightarrow> string \<Rightarrow> string" where
  "replace_all pat rep s = replace_from 0 pat rep s"

text \<open>\<open>customer.customer_name?.split(' ')[0] || 'Friend'\<close>.\<close>

definition first_name :: "Customer \<Rightarrow> string" where
  "first_name c =
     (case customer_name c of
        None \<Rightarrow> ''Friend''
      | Some n \<Rightarrow> str_or (Some (takeWhile (\<lambda>ch. ch \<noteq> CHR '' '') n)) ''Friend'')"

text \<open>\<open>personalizeContent\<close>: a \<open>TypeError\<close> when the content is not a string.\<close>

definition personalizeContent :: "jsval \<Rightarrow> Customer \<Rightarrow> exn + string" where
  "personalizeContent content c =
     (case content of
        Str t \<Rightarrow>
          Inr (replace_all ''{visit_count}'' (show_nat (visit_count c))
                (replace_all ''{loyalty_points}'' (show_nat (loyalty_points c))
                  (replace_all ''{first_name}'' (first_name c)
                    (replace_all ''{name}'' (str_or (customer_name c) ''Valued Customer'') t))))
      | _ \<Rightarrow> Inl TypeError)"

definition buildSegmentQuery :: "string \<Rightarrow> string \<Rightarrow> string \<times> string list" where
  "buildSegmentQuery segment rid =
     (let query = ''SELECT * FROM restaurant_customers WHERE restaurant_id = $1''
      in (if segment = ''loyal_customers'' then query @ '' AND visit_count > 5''
          else if segment = ''high_value_customers'' then query @ '' AND total_spent > 100''
          else if segment = ''recent_customers''
            then query @ '' AND last_interaction > NOW() - INTERVAL '' @ [CHR 0x27] @ ''30 days''
                 @ [CHR 0x27]
          else if segment = ''sms_subscribers''
            then query @ '' AND opt_in_sms = true AND customer_phone IS NOT NULL''
          else if segment = ''email_subscribers''
            then query @ '' AND opt_in_email = true AND customer_email IS NOT NULL''
          else query,
          [rid]))"

text \<open>The customers that the database returns for a variant's segment, asked at \<open>t\<close>.\<close>

definition resolve_segment :: "cworld \<Rightarrow> CampaignState \<Rightarrow> Variant \<Rightarrow> nat \<Rightarrow> Customer list" where
  "resolve_segment w st v t =
     (let customerQuery = buildSegmentQuery (target_segment v) (cs_restaurant_id st)
      in data_or_empty (executeQuery (db_customers w t (fst customerQuery) (snd customerQuery))))"

text \<open>The two conditions under which \<open>executeCampaign\<close> sends to a customer.\<close>

definition truthy_str :: "string option \<Rightarrow> bool" where
  "truthy_str x = (case x of None \<Rightarrow> False | Some s \<Rightarrow> s \<noteq> [])"

definition email_ok :: "CampaignState \<Rightarrow> Customer \<Rightarrow> bool" where
  "email_ok st c =
     (cd_type (campaign_data st) = Some email_channel \<and> truthy_str (customer_email c)
      \<and> opt_in_email c)"

definition sms_ok :: "CampaignState \<Rightarrow> Customer \<Rightarrow> bool" where
  "sms_ok st c =
     (cd_type (campaign_data st) = Some sms_channel \<and> truthy_str (customer_phone c)
      \<and> opt_in_sms c)"

text \<open>The guard of the two sending branches: the customers that \<open>executeCampaign\<close>
  sends to.\<close>

definition sends_to :: "CampaignState \<Rightarrow> Customer \<Rightarrow> bool" where
  "sends_to st c = (email_ok st c \<or> sms_ok st c)"

text \<open>
  Opt-in as the specification words it, for comparison with \<open>sends_to\<close>: the customer
  record indicates opt-in for the campaign's channel type (for a multi-channel campaign, for
  one of its channels).
\<close>

definition spec_opted_in :: "channel option \<Rightarrow> Customer \<Rightarrow> bool" where
  "spec_opted_in ch c =
     (case ch of
        None \<Rightarrow> False
      | Some email_channel \<Rightarrow> opt_in_email c
      | Some sms_channel \<Rightarrow> opt_in_sms c
      | Some multi_channel \<Rightarrow> opt_in_email c \<or> opt_in_sms c)"

text \<open>
  The address test of the two guards, \<open>customer.customer_email\<close> and
  \<open>customer.customer_phone\<close>: the customer has a non-empty address for the channel.
\<close>

definition has_address :: "channel option \<Rightarrow> Customer \<Rightarrow> bool" where
  "has_address ch c =
     (case ch of
        None \<Rightarrow> False
      | Some email_channel \<Rightarrow> truthy_str (customer_email c)
      | Some sms_channel \<Rightarrow> truthy_str (customer_phone c)
      | Some multi_channel \<Rightarrow> False)"

definition log_params :: "CampaignState \<Rightarrow> Variant \<Rightarrow> Customer \<Rightarrow> string list" where
  "log_params st v c =
     [campaign_id st, c_id c, variant_id v, channel_text (cd_type (campaign_data st)), ''sent'']"

text \<open>
  The body of the inner \<open>try\<close> for one customer: the error thrown, if any, the counters
  and the tick after it. The results of \<open>sendEmail\<close>, \<open>sendSMS\<close> and of the logging
  query are not looked at by the source.
\<close>

definition send_try ::
  "cworld \<Rightarrow> CampaignState \<Rightarrow> Variant \<Rightarrow> Customer \<Rightarrow> Results \<times> nat \<Rightarrow> exn option \<times> Results \<times> nat" where
  "send_try w st v c rt =
     (let (res, t) = rt in
      if email_ok st c then
        (case personalizeContent (v_content v) c of
           Inl e \<Rightarrow> (Some e, res, t)
         | Inr html \<Rightarrow>
             (let mail = sendEmail \<lparr> em_to = str_or (customer_email c) [],
                                     em_subject = str_or (v_subject v) ''Special Offer from Lullabar'',
                                     em_html = Some html, em_text = None,
                                     em_from = from_email w \<rparr> (resend w t);
                  res1 = res\<lparr>sent := sent res + 1, delivered := delivered res + 1\<rparr>;
                  logged = executeQuery (db_rows w (t + 1) ''INSERT INTO campaign_interactions''
                                           (log_params st v c))
              in (None, res1, t + 2)))
      else if sms_ok st c then
        (case personalizeContent (v_content v) c of
           Inl e \<Rightarrow> (Some e, res, t)
         | Inr body \<Rightarrow>
             (let sms = sendSMS \<lparr> sms_to = str_or (customer_phone c) [], sms_body = body,
                                  sms_from = None \<rparr> (twilio w t);
                  res1 = res\<lparr>sent := sent res + 1, delivered := delivered res + 1\<rparr>;
                  logged = executeQuery (db_rows w (t + 1) ''INSERT INTO campaign_interactions''
                                           (log_params st v c))
              in (None, res1, t + 2)))
      else
        (let logged = executeQuery (db_rows w t ''INSERT INTO campaign_interactions''
                                      (log_params st v c))
         in (None, res, t + 1)))"

text \<open>The inner \<open>try\<close> with its \<open>catch\<close>: one iteration of the loop over the customers.\<close>

definition send_to_customer ::
  "cworld \<Rightarrow> CampaignState \<Rightarrow> Variant \<Rightarrow> Customer \<Rightarrow> Results \<times> nat \<Rightarrow> Results \<times> nat" where
  "send_to_customer w st v c rt =
     (case send_try w st v c rt of
        (None, res, t) \<Rightarrow> (res, t)
      | (Some e, res, t) \<Rightarrow>
          (res\<lparr>failed' := failed' res + 1,
               errors := errors res @ [''Customer '' @ c_id c @ '': '' @ error_message e]\<rparr>, t))"

text \<open>One iteration of the loop over the variants.\<close>

definition run_variant ::
  "cworld \<Rightarrow> CampaignState \<Rightarrow> Variant \<Rightarrow> Results \<times> nat \<Rightarrow> Results \<times> nat" where
  "run_variant w st v rt =
     (let (res, t) = rt;
          customers = resolve_segment w st v t
      in fold (send_to_customer w st v) customers (res, t + 1))"

text \<open>
  \<open>executeCampaign\<close>. It throws when there is no content variant. Nothing inside its
  outer \<open>try\<close> throws (the toolkits return their failures), so its outer \<open>catch\<close>
  has no branch here.
\<close>

definition executeCampaign :: "cworld \<Rightarrow> CampaignState \<Rightarrow> nat \<Rightarrow> exn + (CampaignState \<times> nat)" where
  "executeCampaign w st t =
     (case content_variants st of
        None \<Rightarrow> Inl (Error ''Content variants required for execution'')
      | Some vs \<Rightarrow>
          if vs = [] then Inl (Error ''Content variants required for execution'')
          else
            (let (res, t1) = fold (run_variant w st) vs
                               (\<lparr> sent = 0, delivered = 0, failed' = 0, errors = [] \<rparr>, t);
                 updated = executeQuery (db_rows w t1 ''UPDATE campaigns''
                                           [''completed'', campaign_id st])
             in Inr (st\<lparr>current_step := ''execution_complete'',
                        steps_completed := steps_completed st @ [''execute_campaign''],
                        execution_results := Some res\<rparr>, t1 + 1)))"

text \<open>\<open>analyzeCustomerBase\<close>: never throws.\<close>

definition analyzeCustomerBase :: "cworld \<Rightarrow> CampaignState \<Rightarrow> nat \<Rightarrow> CampaignState \<times> nat" where
  "analyzeCustomerBase w st t =
     (let segmentResult = executeQuery (db_rows w t ''SELECT COUNT(*) FROM restaurant_customers''
                                          [cs_restaurant_id st]);
          segs = (case data_or_empty segmentResult of
                    [] \<Rightarrow> Obj []
                  | row # rest \<Rightarrow> js_or row (Obj []))
      in case gateway w (t + 1) of
           LlmJson prefs \<Rightarrow>
             (st\<lparr>current_step := ''analysis_complete'',
                 steps_completed := steps_completed st @ [''analyze_customers''],
                 customer_analysis :=
                   Some \<lparr> total_customers = js_or (get_prop segs ''total_customers'') (Num 0),
                          segments = segs, an_preferences = prefs \<rparr>\<rparr>, t + 2)
         | _ \<Rightarrow> (st\<lparr>current_step := ''analysis_failed''\<rparr>, t + 2))"

text \<open>
  The content prompt is built before the \<open>try\<close> block and evaluates
  \<open>analysis.preferences.recommended_segments?.join(', ')\<close>, which throws when the
  preferences are \<open>null\<close>, or when the recommended segments are there but are not an array.
\<close>

definition content_prompt_throws :: "jsval \<Rightarrow> bool" where
  "content_prompt_throws prefs =
     (case member prefs ''recommended_segments'' of
        Inl e \<Rightarrow> True
      | Inr Undefined \<Rightarrow> False
      | Inr Null \<Rightarrow> False
      | Inr (Arr xs) \<Rightarrow> False
      | Inr v \<Rightarrow> True)"

text \<open>\<open>variant.variant_id || `variant_${index + 1}`\<close> over the array.\<close>

definition number_variants :: "Variant list \<Rightarrow> Variant list" where
  "number_variants vs =
     map (\<lambda>(index, v). v\<lparr>variant_id := str_or (Some (variant_id v))
                                          (''variant_'' @ show_nat (index + 1))\<rparr>)
       (zip [0 ..< length vs] vs)"

definition generateCampaignContent ::
  "cworld \<Rightarrow> CampaignState \<Rightarrow> nat \<Rightarrow> exn + (CampaignState \<times> nat)" where
  "generateCampaignContent w st t =
     (case customer_analysis st of
        None \<Rightarrow> Inl (Error ''Customer analysis required before content generation'')
      | Some an \<Rightarrow>
          if content_prompt_throws (an_preferences an) then Inl TypeError
          else
            (case gateway_variants w t of
               Some vs \<Rightarrow>
                 Inr (st\<lparr>current_step := ''content_generated'',
                         steps_completed := steps_completed st @ [''generate_content''],
                         content_variants := Some (number_variants vs)\<rparr>, t + 1)
             | None \<Rightarrow> Inr (st\<lparr>current_step := ''content_generation_failed''\<rparr>, t + 1)))"

text \<open>\<open>monitorCampaignResults\<close>: never throws.\<close>

definition monitorCampaignResults :: "cworld \<Rightarrow> CampaignState \<Rightarrow> nat \<Rightarrow> CampaignState \<times> nat" where
  "monitorCampaignResults w st t =
     (case gateway w t of
        LlmJson a \<Rightarrow>
          (case member a ''next_campaign_recommendations'' of
             Inr recs \<Rightarrow>
               (st\<lparr>current_step := ''monitoring_complete'',
                   steps_completed := steps_completed st @ [''monitor_results''],
                   next_actions := recs\<rparr>, t + 1)
           | Inl e \<Rightarrow> (st\<lparr>current_step := ''monitoring_failed''\<rparr>, t + 1))
      | _ \<Rightarrow> (st\<lparr>current_step := ''monitoring_failed''\<rparr>, t + 1))"

section \<open>The campaign workflow: graph\<close>

text \<open>
  The channels of the \<open>StateGraph\<close> of \<open>createCampaignWorkflow\<close>: the state after a node
  is the state before it with the node's return value folded in by each channel's reducer.
  Most reducers take the new value; \<open>customer_analysis\<close> and \<open>execution_results\<close> spread
  the new object over the old one; \<open>content_variants\<close> appends. A value that the node
  leaves \<open>undefined\<close> leaves these three channels as they are.
\<close>

definition merge_channels :: "CampaignState \<Rightarrow> CampaignState \<Rightarrow> CampaignState" where
  "merge_channels cur upd =
     upd\<lparr>customer_analysis :=
           (case customer_analysis upd of None \<Rightarrow> customer_analysis cur | Some a \<Rightarrow> Some a),
         content_variants :=
           (case content_variants upd of
              None \<Rightarrow> content_variants cur
            | Some new \<Rightarrow>
                Some ((case content_variants cur of None \<Rightarrow> [] | Some old \<Rightarrow> old) @ new)),
         execution_results :=
           (case execution_results upd of None \<Rightarrow> execution_results cur | Some r \<Rightarrow> Some r)\<rparr>"

text \<open>The router of the conditional edge after \<open>generate_content\<close>.\<close>

definition after_generate_content :: "CampaignState \<Rightarrow> string" where
  "after_generate_content st =
     (if requires_approval st = Some True then ''approval_required'' else ''execute_campaign'')"

text \<open>
  A run of the compiled graph from its entry point: the nodes that were entered, each with
  the state it was entered with, and the outcome: the final state at \<open>END\<close>, or the
  error of a node that threw (the promise of \<open>invoke\<close> is rejected).
\<close>

definition workflow_invoke ::
  "cworld \<Rightarrow> CampaignState \<Rightarrow> nat \<Rightarrow> (string \<times> CampaignState) list \<times> (exn + CampaignState)" where
  "workflow_invoke w st0 t0 =
     (let h1 = [(''analyze_customers'', st0)];
          (u1, t1) = analyzeCustomerBase w st0 t0;
          s1 = merge_channels st0 u1
      in if current_step s1 = ''analysis_complete'' then
           (let h2 = h1 @ [(''generate_content'', s1)]
            in case generateCampaignContent w s1 t1 of
                 Inl e \<Rightarrow> (h2, Inl e)
               | Inr (u2, t2) \<Rightarrow>
                   (let s2 = merge_channels s1 u2
                    in if after_generate_content s2 = ''approval_required'' then (h2, Inr s2)
                       else
                         (let h3 = h2 @ [(''execute_campaign'', s2)]
                          in case executeCampaign w s2 t2 of
                               Inl e \<Rightarrow> (h3, Inl e)
                             | Inr (u3, t3) \<Rightarrow>
                                 (let s3 = merge_channels s2 u3;
                                      h4 = h3 @ [(''monitor_results'', s3)];
                                      (u4, t4) = monitorCampaignResults w s3 t3;
                                      s4 = merge_channels s3 u4
                                  in (h4, Inr s4)))))
         else (h1, Inr s1))"

record CampaignInput =
  ci_restaurant_id :: string
  ci_goal :: string
  campaign_type :: channel
  ci_target_segments :: "string list option"
  ci_memory_context :: jsval

text \<open>The initial state of \<open>createAdvancedCampaign\<close>; \<open>cid\<close> is the generated identifier.\<close>

definition initialState :: "string \<Rightarrow> CampaignInput \<Rightarrow> CampaignState" where
  "initialState cid campaignData =
     \<lparr> campaign_id = cid,
       cs_restaurant_id = ci_restaurant_id campaignData,
       goal = ci_goal campaignData,
       current_step = ''initializing'',
       steps_completed = [],
       steps_remaining = [''analyze_customers'', ''generate_content'', ''execute_campaign'',
                          ''monitor_results''],
       campaign_data = \<lparr> cd_type = Some (campaign_type campaignData),
                         target_segments =
                           Some (case ci_target_segments campaignData of
                                   None \<Rightarrow> [] | Some segs \<Rightarrow> segs) \<rparr>,
       customer_analysis = None,
       content_variants = None,
       execution_results = None,
       memory_context = ci_memory_context campaignData,
       requires_approval = Some False,
       approval_status = Some approved,
       next_actions = Undefined \<rparr>"

text \<open>
  \<open>createAdvancedCampaign\<close>: the run of the workflow on the initial state, after the
  insertion of the campaign row. \<open>Inl e\<close> is the reply \<open>success: false\<close>.
\<close>

definition createAdvancedCampaign ::
  "cworld \<Rightarrow> string \<Rightarrow> CampaignInput \<Rightarrow> nat \<Rightarrow> (string \<times> CampaignState) list \<times> (exn + CampaignState)" where
  "createAdvancedCampaign w cid campaignData t =
     (let stored = executeQuery (db_rows w t ''INSERT INTO campaigns''
                                   [cid, ci_restaurant_id campaignData,
                                    channel_text (Some (campaign_type campaignData)), ''running''])
      in workflow_invoke w (initialState cid campaignData) (t + 1))"

text \<open>The counters of an execution, and the names of the nodes of a run.\<close>

definition campaign_results :: "exn + (CampaignState \<times> nat) \<Rightarrow> Results option" where
  "campaign_results out = (case out of Inl e \<Rightarrow> None | Inr (st, t) \<Rightarrow> execution_results st)"

definition node_names :: "(string \<times> CampaignState) list \<times> (exn + CampaignState) \<Rightarrow> string list" where
  "node_names run = map fst (fst run)"

section \<open>Example worlds and inputs\<close>

text \<open>A world in which every external call fails, and the state of a fresh orchestrator.\<close>

definition quiet_world :: world where
  "quiet_world =
     \<lparr> llm_json = (\<lambda>n. LlmUnparsable), llm_goal = (\<lambda>n. Inl SyntaxError),
       llm_tasks = (\<lambda>n. None), llm_updates = (\<lambda>n. None), http = (\<lambda>n. FetchError ''down''),
       clock = (\<lambda>n. n), ToString = (\<lambda>v. ''?'') \<rparr>"

definition empty_orch :: orch where
  "empty_orch = \<lparr> memory = [], taskQueue = [], heap = [], tick = 0 \<rparr>"

text \<open>A world whose model names a handler that does not exist.\<close>

definition chef_world :: world where
  "chef_world = quiet_world\<lparr>llm_json := (\<lambda>n. LlmJson (Obj [(''agent'', Str ''chef'')]))\<rparr>"

definition call_request :: AgentRequest where
  "call_request = \<lparr> message = ''Please call me'', req_context = None \<rparr>"

text \<open>Three tasks of a decomposition; the third depends on the first two.\<close>

definition task_low :: Task where
  "task_low =
     \<lparr> task_id = ''task_1'', task_type = research, description = ''Collect customer data'',
       status = pending, priority = 1, dependencies = None, result = None,
       agent = Some ''crm'', created_at = 0, updated_at = 0 \<rparr>"

definition task_high :: Task where
  "task_high =
     \<lparr> task_id = ''task_2'', task_type = action, description = ''Draft the welcome e-mail'',
       status = pending, priority = 5, dependencies = Some [], result = None,
       agent = Some ''campaigns'', created_at = 0, updated_at = 0 \<rparr>"

definition task_dependent :: Task where
  "task_dependent =
     \<lparr> task_id = ''task_3'', task_type = communication, description = ''Send the welcome e-mail'',
       status = pending, priority = 9, dependencies = Some [''task_1'', ''task_2''],
       result = None, agent = Some ''campaigns'', created_at = 0, updated_at = 0 \<rparr>"

text \<open>
  A world in which the goal analysis finds a complex goal, the decomposition gives the three
  tasks, and every call to a handler fails at the transport level.
\<close>

definition plan_world :: world where
  "plan_world =
     quiet_world\<lparr>llm_goal := (\<lambda>n. Inr \<lparr> is_complex = Bool True,
                                          ga_goal = ''Set up a full onboarding flow'' \<rparr>),
                 llm_tasks := (\<lambda>n. Some [task_low, task_high, task_dependent])\<rparr>"

text \<open>The task objects in the heap after a run (none when the run does not return).\<close>

definition final_tasks :: "(AgentResponse \<times> orch) option \<Rightarrow> Task list" where
  "final_tasks out = (case out of None \<Rightarrow> [] | Some (r, s) \<Rightarrow> heap s)"

definition one_task_orch :: orch where
  "one_task_orch = \<lparr> memory = [], taskQueue = [0], heap = [task_low], tick = 0 \<rparr>"

text \<open>Two memory updates: a goal without a value, and a fact.\<close>

definition goal_null :: MemoryUpdate where
  "goal_null =
     \<lparr> mu_type = ut_goal, mu_key = ''next_goal'', mu_value = Null, mu_confidence = 0.9,
       mu_source = ''conversation'', mu_timestamp = 0 \<rparr>"

definition fact_diet :: MemoryUpdate where
  "fact_diet =
     \<lparr> mu_type = ut_fact, mu_key = ''diet'', mu_value = Str ''vegetarian'', mu_confidence = 0.8,
       mu_source = ''conversation'', mu_timestamp = 0 \<rparr>"

text \<open>An orchestrator with two sessions; the first one has something in every field.\<close>

definition busy_orch :: orch where
  "busy_orch =
     \<lparr> memory =
         [(''s1'',
           \<lparr> m_session_id = ''s1'',
             conversation_history =
               [\<lparr> h_role = user, h_content = Str ''I am vegetarian'', h_timestamp = 0 \<rparr>],
             facts = [(''diet'', fact_of fact_diet)],
             preferences = [(''spice'', preference_of fact_diet)],
             m_context = [(''table'', Num 4)],
             goals = [\<lparr> g_description = Str ''book a table'', g_status = Str ''active'',
                        g_priority = Num 1 \<rparr>],
             tasks = [(''task_1'', 0)] \<rparr>),
          (''s2'', (new_memory ''s2'')\<lparr>facts := [(''diet'', fact_of fact_diet)]\<rparr>)],
       taskQueue = [0], heap = [task_low], tick = 7 \<rparr>"

text \<open>
  The scenario of the specification: an e-mail campaign with two content variants, one for
  \<open>loyal_customers\<close> (three customers, two of them opted into e-mail) and one for
  \<open>sms_subscribers\<close> (one customer, opted into SMS only). In \<open>scenario_world\<close>
  every external call succeeds; in \<open>bounce_world\<close> the e-mail client rejects every
  message.
\<close>

definition alice :: Customer where
  "alice = \<lparr> c_id = ''1'', customer_name = Some ''Alice Chan'',
             customer_email = Some ''alice@example.com'', customer_phone = None,
             opt_in_email = True, opt_in_sms = False, loyalty_points = 120, visit_count = 8 \<rparr>"

definition bob :: Customer where
  "bob = \<lparr> c_id = ''2'', customer_name = None,
           customer_email = Some ''bob@example.com'', customer_phone = Some ''+15550002'',
           opt_in_email = True, opt_in_sms = False, loyalty_points = 0, visit_count = 6 \<rparr>"

definition carol :: Customer where
  "carol = \<lparr> c_id = ''3'', customer_name = Some ''Carol'',
             customer_email = Some ''carol@example.com'', customer_phone = None,
             opt_in_email = False, opt_in_sms = False, loyalty_points = 40, visit_count = 9 \<rparr>"

definition dave :: Customer where
  "dave = \<lparr> c_id = ''4'', customer_name = Some ''Dave'',
            customer_email = None, customer_phone = Some ''+15550004'',
            opt_in_email = False, opt_in_sms = True, loyalty_points = 5, visit_count = 1 \<rparr>"

definition variant_loyal :: Variant where
  "variant_loyal =
     \<lparr> variant_id = ''variant_1'', v_subject = Some ''Thank you'',
       v_content = Str ''Hi {first_name}, you have {loyalty_points} points.'',
       target_segment = ''loyal_customers'' \<rparr>"

definition variant_sms :: Variant where
  "variant_sms =
     \<lparr> variant_id = ''variant_2'', v_subject = None,
       v_content = Str ''Hello {name}!'', target_segment = ''sms_subscribers'' \<rparr>"

definition scenario_input :: CampaignInput where
  "scenario_input =
     \<lparr> ci_restaurant_id = ''lullabar'', ci_goal = ''Bring loyal guests back'',
       campaign_type = email_channel, ci_target_segments = None, ci_memory_context = Undefined \<rparr>"

definition scenario_world :: cworld where
  "scenario_world =
     \<lparr> db_customers =
         (\<lambda>t q ps.
            if q = fst (buildSegmentQuery ''loyal_customers'' ''lullabar'')
              then Inr ([alice, bob, carol], 3)
            else if q = fst (buildSegmentQuery ''sms_subscribers'' ''lullabar'')
              then Inr ([dave], 1)
            else Inr ([], 0)),
       db_rows = (\<lambda>t q ps. Inr ([], 1)),
       resend = (\<lambda>t. Inr (Obj [(''data'', Obj [(''id'', Str ''msg_1'')])])),
       twilio = (\<lambda>t. Inr (Obj [(''sid'', Str ''SM1'')])),
       gateway = (\<lambda>t. LlmJson (Obj [(''recommended_segments'', Arr [Str ''loyal_customers'']),
                                      (''next_campaign_recommendations'', Arr [])])),
       gateway_variants = (\<lambda>t. Some [variant_loyal, variant_sms]),
       from_email = Some ''hello@example.com'' \<rparr>"

definition scenario_state :: CampaignState where
  "scenario_state =
     (initialState ''campaign_1'' scenario_input)
       \<lparr>current_step := ''content_generated'',
        content_variants := Some [variant_loyal, variant_sms]\<rparr>"

definition bounce_world :: cworld where
  "bounce_world = scenario_world\<lparr>resend := (\<lambda>t. Inl (Error ''Invalid API key''))\<rparr>"

text \<open>
  A customer who opted into e-mail but has no e-mail address on record, a world whose
  \<open>loyal_customers\<close> segment is this customer and one other, and a campaign state with
  the single variant for that segment.
\<close>

definition erin :: Customer where
  "erin = \<lparr> c_id = ''5'', customer_name = Some ''Erin'',
            customer_email = None, customer_phone = Some ''+15550005'',
            opt_in_email = True, opt_in_sms = False, loyalty_points = 70, visit_count = 7 \<rparr>"

definition noaddress_world :: cworld where
  "noaddress_world =
     scenario_world\<lparr>db_customers :=
        (\<lambda>t q ps.
           if q = fst (buildSegmentQuery ''loyal_customers'' ''lullabar'')
             then Inr ([alice, erin], 2)
           else Inr ([], 0))\<rparr>"

definition loyal_state :: CampaignState where
  "loyal_state = scenario_state\<lparr>content_variants := Some [variant_loyal]\<rparr>"

section \<open>Properties\<close>

text \<open>
  C8. For every message, the confidence returned by the fallback routing path is
  strictly positive and at most 0.7.
\<close>

theorem fallbackRouting_confidence_bounds:
  "0 < confidence (fallbackRouting msg) \<and> confidence (fallbackRouting msg) \<le> 0.7"
  by (simp add: fallbackRouting_def Let_def)

subsection \<open>Routing\<close>

lemma tick_getOrCreateMemory: "tick (snd (getOrCreateMemory sid s)) = tick s"
  by (simp add: getOrCreateMemory_def split: option.splits)

lemma routeToAgent_result:
  "fst (routeToAgent w req s) = route_on (llm_json w (tick s)) (message req)"
proof (cases "getOrCreateMemory (sessionId_of req) s")
  case (Pair m s1)
  with tick_getOrCreateMemory [of "sessionId_of req" s] have "tick s1 = tick s" by simp
  with Pair show ?thesis by (simp add: routeToAgent_def Let_def)
qed

lemma fallback_confidence_cases:
  "confidence (fallbackRouting msg) = 0.7 \<or> confidence (fallbackRouting msg) = 0.5"
  by (simp add: fallbackRouting_def Let_def)

text \<open>
  C2, as the code has it. When the inference call errors or its output does not parse,
  \<open>routeToAgent\<close> returns the result of the keyword heuristic \<open>fallbackRouting\<close> on the
  raw message. When the reply parses but names a handler outside the known identifiers,
  \<open>routeToAgent\<close> does not call the heuristic: it returns the fixed routing to
  \<open>postgres\<close> with confidence 0.6, which is never what the heuristic returns.
\<close>

theorem routeToAgent_failure_paths:
  "(llm_json w (tick s) = LlmError e \<or> llm_json w (tick s) = LlmUnparsable
      \<longrightarrow> fst (routeToAgent w req s) = Routed (fallbackRouting (message req)))
   \<and> (llm_json w (tick s) = LlmJson res \<and> member res ''agent'' = Inr a \<and> \<not> is_valid_agent a
      \<longrightarrow> fst (routeToAgent w req s) =
            Routed \<lparr> r_agent = ''postgres'', confidence = 0.6,
                     reasoning = ''Defaulted to restaurant operations agent'' \<rparr>
          \<and> fst (routeToAgent w req s) \<noteq> Routed (fallbackRouting (message req)))"
proof -
  have differ: "\<lparr> r_agent = ''postgres'', confidence = 0.6,
                   reasoning = ''Defaulted to restaurant operations agent'' \<rparr>
                \<noteq> fallbackRouting (message req)"
  proof
    assume eq: "\<lparr> r_agent = ''postgres'', confidence = 0.6,
                   reasoning = ''Defaulted to restaurant operations agent'' \<rparr>
                = fallbackRouting (message req)"
    have "confidence (fallbackRouting (message req)) = 0.6"
      by (simp add: eq [symmetric])
    with fallback_confidence_cases [of "message req"] show False by simp
  qed
  show ?thesis
    using differ by (auto simp: routeToAgent_result route_on_def)
qed

theorem routeToAgent_failure_paths_witness:
  "llm_json quiet_world (tick empty_orch) = LlmUnparsable
   \<and> fst (routeToAgent quiet_world call_request empty_orch)
       = Routed (fallbackRouting (message call_request))
   \<and> llm_json chef_world (tick empty_orch) = LlmJson (Obj [(''agent'', Str ''chef'')])
   \<and> member (Obj [(''agent'', Str ''chef'')]) ''agent'' = Inr (Str ''chef'')
   \<and> \<not> is_valid_agent (Str ''chef'')
   \<and> fst (routeToAgent chef_world call_request empty_orch)
       = Routed \<lparr> r_agent = ''postgres'', confidence = 0.6,
                  reasoning = ''Defaulted to restaurant operations agent'' \<rparr>"
  using routeToAgent_failure_paths [of quiet_world empty_orch "''x''" call_request Null Null]
        routeToAgent_failure_paths [of chef_world empty_orch "''x''" call_request
                                       "Obj [(''agent'', Str ''chef'')]" "Str ''chef''"]
  by (simp add: quiet_world_def chef_world_def empty_orch_def validAgents_def)

text \<open>
  The claim as stated fails on a reply with an unknown handler: on the message \<open>Please call me\<close> the heuristic routes to
  \<open>voice\<close>, but with a reply that names the unknown handler \<open>chef\<close> the request is
  routed to \<open>postgres\<close>.
\<close>

theorem routeToAgent_unknown_handler_counterexample:
  "llm_json chef_world (tick empty_orch) = LlmJson (Obj [(''agent'', Str ''chef'')])
   \<and> \<not> is_valid_agent (Str ''chef'')
   \<and> r_agent (fallbackRouting (message call_request)) = ''voice''
   \<and> route_agent (fst (routeToAgent chef_world call_request empty_orch)) = Some ''postgres''
   \<and> fst (routeToAgent chef_world call_request empty_orch)
       \<noteq> Routed (fallbackRouting (message call_request))"
  by (simp add: routeToAgent_def route_on_def getOrCreateMemory_def sessionId_of_def
        chef_world_def quiet_world_def empty_orch_def call_request_def validAgents_def
        fallbackRouting_def toLowerCase_def toLowerChar_def Let_def)

subsection \<open>Dispatch\<close>

lemma tick_put_memory: "tick (put_memory sid m s) = tick s"
  by (simp add: put_memory_def)

lemma tick_push_history: "tick (push_history sid e s) = tick s"
proof (cases "getOrCreateMemory sid s")
  case (Pair m s1)
  with tick_getOrCreateMemory [of sid s] have "tick s1 = tick s" by simp
  with Pair show ?thesis by (simp add: push_history_def tick_put_memory)
qed

lemma dispatch_try_fails:
  "dispatch_fails (http w (tick s)) \<Longrightarrow> \<exists>e s'. dispatch_try w a req s = (Inl e, s')"
  by (auto simp: dispatch_try_def dispatch_fails_def Let_def
           split: sum.splits http_outcome.splits)

lemma dispatch_degraded:
  "dispatch_fails (http w (tick s)) \<Longrightarrow> \<exists>e s'. dispatch w a req s = (degraded_response a e, s')"
  using dispatch_try_fails [of w s a req] by (auto simp: dispatch_def)

lemma executeAgent_handler:
  "a \<noteq> Some ''orchestrator'' \<Longrightarrow>
   executeAgent n w a req s =
     Some (dispatch w a req
             (push_history (sessionId_of req)
                \<lparr> h_role = user, h_content = Str (message req), h_timestamp = clock w (tick s) \<rparr> s))"
  by (cases n) (simp_all add: Let_def)

text \<open>
  C6. For every dispatch to a handler other than the orchestrator, \<open>executeAgent\<close>
  returns a response (it never throws and needs no fuel), and when the call to the handler
  fails at the transport level or returns non-success, the response is the degraded one:
  confidence 0.1 and \<open>needs_human_handoff = true\<close>.
\<close>

theorem executeAgent_degraded_on_failure:
  assumes "a \<noteq> Some ''orchestrator''"
  shows "(\<exists>r s'. executeAgent n w a req s = Some (r, s'))
         \<and> (dispatch_fails (http w (tick s)) \<longrightarrow>
              (\<exists>e s'. executeAgent n w a req s = Some (degraded_response a e, s')
                     \<and> resp_confidence (degraded_response a e) = Num 0.1
                     \<and> needs_human_handoff (degraded_response a e) = Bool True))"
proof -
  let ?s1 = "push_history (sessionId_of req)
               \<lparr> h_role = user, h_content = Str (message req), h_timestamp = clock w (tick s) \<rparr> s"
  have run: "executeAgent n w a req s = Some (dispatch w a req ?s1)"
    using assms by (rule executeAgent_handler)
  have returns: "\<exists>r s'. executeAgent n w a req s = Some (r, s')"
    by (cases "dispatch w a req ?s1") (simp add: run)
  have "\<exists>e s'. executeAgent n w a req s = Some (degraded_response a e, s')"
    if "dispatch_fails (http w (tick s))"
  proof -
    from that have "dispatch_fails (http w (tick ?s1))" by (simp add: tick_push_history)
    from dispatch_degraded [OF this] show ?thesis by (simp add: run)
  qed
  moreover have "resp_confidence (degraded_response a e) = Num 0.1
                 \<and> needs_human_handoff (degraded_response a e) = Bool True" for e
    by (simp add: degraded_response_def)
  ultimately show ?thesis using returns by blast
qed

theorem executeAgent_degraded_on_failure_witness:
  "Some ''crm'' \<noteq> Some ''orchestrator''
   \<and> dispatch_fails (http quiet_world (tick empty_orch))
   \<and> (\<exists>e s'. executeAgent 0 quiet_world (Some ''crm'') call_request empty_orch
               = Some (degraded_response (Some ''crm'') e, s'))"
proof -
  have h1: "Some ''crm'' \<noteq> Some ''orchestrator''" by simp
  have h2: "dispatch_fails (http quiet_world (tick empty_orch))"
    by (simp add: dispatch_fails_def quiet_world_def empty_orch_def)
  from executeAgent_degraded_on_failure [OF h1, of 0 quiet_world call_request empty_orch] h2
  have "\<exists>e s'. executeAgent 0 quiet_world (Some ''crm'') call_request empty_orch
               = Some (degraded_response (Some ''crm'') e, s')"
    by blast
  with h1 h2 show ?thesis by blast
qed

subsection \<open>Task selection\<close>

lemma first_index_Some:
  "first_index P xs = Some i \<Longrightarrow> i < length xs \<and> P (xs ! i) \<and> (\<forall>j<i. \<not> P (xs ! j))"
proof (induction xs arbitrary: i)
  case Nil
  then show ?case by simp
next
  case (Cons x xs)
  show ?case
  proof (cases "P x")
    case True
    with Cons.prems show ?thesis by simp
  next
    case False
    with Cons.prems obtain k where k: "first_index P xs = Some k" "i = Suc k"
      by auto
    from Cons.IH [OF k(1)] have ih: "k < length xs" "P (xs ! k)" "\<forall>j<k. \<not> P (xs ! j)"
      by simp_all
    have "\<not> P ((x # xs) ! j)" if "j < i" for j
      using that False ih(3) k(2) by (cases j) simp_all
    with ih k(2) show ?thesis by simp
  qed
qed

lemma first_index_None: "first_index P xs = None \<Longrightarrow> \<forall>x\<in>set xs. \<not> P x"
  by (induction xs) (auto split: if_splits)

lemma first_index_map:
  "(\<And>x. P (g x) = P x) \<Longrightarrow> first_index P (map g xs) = first_index P xs"
  by (induction xs) simp_all

lemma no_dependencies_ready: "no_dependencies t \<Longrightarrow> spec_ready ts t"
  by (auto simp: no_dependencies_def spec_ready_def task_deps_def split: option.splits)

text \<open>
  C3, as the code has it. The task selected for execution is the first task, in insertion
  order, that has no dependencies (no list, or an empty one). It is therefore ready (all
  entries of its empty dependency set are \<open>completed\<close>), a task with a dependency that
  is not \<open>completed\<close> is never selected, and no task is selected when every task has a
  dependency. The priority plays no part: changing the priorities does not change the
  selection.
\<close>

theorem firstTask_selects_first_without_dependencies:
  "(firstTask ts = Some i \<longrightarrow>
      i < length ts \<and> no_dependencies (ts ! i) \<and> spec_ready ts (ts ! i)
      \<and> (\<forall>j<i. \<not> no_dependencies (ts ! j)))
   \<and> (firstTask ts = None \<longrightarrow> (\<forall>t\<in>set ts. \<not> no_dependencies t))
   \<and> firstTask (map (\<lambda>t. t\<lparr>priority := f t\<rparr>) ts) = firstTask ts"
proof -
  have "firstTask (map (\<lambda>t. t\<lparr>priority := f t\<rparr>) ts) = firstTask ts"
    unfolding firstTask_def by (rule first_index_map) (simp add: no_dependencies_def)
  moreover have "i < length ts \<and> no_dependencies (ts ! i) \<and> spec_ready ts (ts ! i)
      \<and> (\<forall>j<i. \<not> no_dependencies (ts ! j))" if "firstTask ts = Some i"
    using first_index_Some [of no_dependencies ts i] that no_dependencies_ready
    by (simp add: firstTask_def)
  moreover have "\<forall>t\<in>set ts. \<not> no_dependencies t" if "firstTask ts = None"
    using first_index_None [of no_dependencies ts] that by (simp add: firstTask_def)
  ultimately show ?thesis by blast
qed

theorem firstTask_selects_first_without_dependencies_witness:
  "firstTask [task_dependent, task_low, task_high] = Some 1
   \<and> no_dependencies ([task_dependent, task_low, task_high] ! 1)
   \<and> \<not> no_dependencies ([task_dependent, task_low, task_high] ! 0)
   \<and> firstTask [] = None"
  using firstTask_selects_first_without_dependencies
          [of "[task_dependent, task_low, task_high]" 1 "\<lambda>t. 0"]
        firstTask_selects_first_without_dependencies [of "[]" 0 "\<lambda>t. 0"]
  by (simp add: firstTask_def no_dependencies_def task_dependent_def task_low_def task_high_def)

text \<open>
  The claim as stated fails on the priority: of two ready tasks the code selects the first,
  of priority 1, where the specification's selection is the second, of priority 5.
\<close>

theorem firstTask_ignores_priority_counterexample:
  "firstTask [task_low, task_high] = Some 0
   \<and> spec_ready [task_low, task_high] task_high
   \<and> priority task_low < priority task_high
   \<and> spec_select_ready_task [task_low, task_high] = Some 1"
  by (simp add: firstTask_def no_dependencies_def spec_select_ready_task_def spec_ready_def
        task_deps_def task_low_def task_high_def)

subsection \<open>Memory updates\<close>

lemma member_Inl_iff: "(\<exists>e. member v k = Inl e) = (v = Null \<or> v = Undefined)"
  by (cases v) auto

lemma member_get_prop: "member v k = Inr d \<Longrightarrow> get_prop v k = d"
  by (simp add: get_prop_def)

lemma applyUpdate_throws: "update_throws u \<Longrightarrow> applyUpdate u m = Inl TypeError"
  by (auto simp: update_throws_def applyUpdate_def)

lemma applyUpdate_ok:
  "\<not> update_throws u \<Longrightarrow>
   applyUpdate u m =
     Inr (case mu_type u of
            ut_fact \<Rightarrow> m\<lparr>facts := AList.update (mu_key u) (fact_of u) (facts m)\<rparr>
          | ut_preference \<Rightarrow>
              m\<lparr>preferences := AList.update (mu_key u) (preference_of u) (preferences m)\<rparr>
          | ut_context \<Rightarrow> m\<lparr>m_context := AList.update (mu_key u) (mu_value u) (m_context m)\<rparr>
          | ut_goal \<Rightarrow> m\<lparr>goals := goals m @ [goal_of u]\<rparr>
          | ut_other \<Rightarrow> m)"
proof (cases "mu_type u")
  case ut_goal
  assume "\<not> update_throws u"
  with ut_goal have "mu_value u \<noteq> Null" "mu_value u \<noteq> Undefined"
    by (simp_all add: update_throws_def)
  then obtain d where d: "member (mu_value u) ''description'' = Inr d"
    by (cases "mu_value u") auto
  with ut_goal show ?thesis
    by (simp add: applyUpdate_def goal_of_def member_get_prop)
qed (simp_all add: applyUpdate_def fact_of_def preference_of_def)

lemma applyUpdates_no_throw:
  "list_all (\<lambda>u. \<not> update_throws u) us \<Longrightarrow> fst (applyUpdates us m) = None"
  by (induction us arbitrary: m) (simp_all add: applyUpdate_ok)

lemma applyUpdates_facts:
  "list_all (\<lambda>u. \<not> update_throws u) us \<Longrightarrow>
   map_of (facts (snd (applyUpdates us m))) k =
     (case writes ut_fact k us of
        [] \<Rightarrow> map_of (facts m) k
      | w # ws \<Rightarrow> Some (fact_of (last (w # ws))))"
proof (induction us arbitrary: m)
  case Nil
  then show ?case by (simp add: writes_def)
next
  case (Cons u us)
  from Cons.prems have ok: "\<not> update_throws u" and rest: "list_all (\<lambda>u. \<not> update_throws u) us"
    by simp_all
  obtain m1 where m1: "applyUpdate u m = Inr m1"
    using applyUpdate_ok [OF ok] by blast
  have step: "map_of (facts m1) k =
                (if mu_type u = ut_fact \<and> mu_key u = k then Some (fact_of u) else map_of (facts m) k)"
    using m1 applyUpdate_ok [OF ok, of m]
    by (cases "mu_type u") (auto simp: update_conv')
  have "map_of (facts (snd (applyUpdates (u # us) m))) k
          = map_of (facts (snd (applyUpdates us m1))) k"
    by (simp add: m1)
  also have "\<dots> = (case writes ut_fact k us of
                      [] \<Rightarrow> map_of (facts m1) k
                    | w # ws \<Rightarrow> Some (fact_of (last (w # ws))))"
    by (rule Cons.IH [OF rest])
  also have "\<dots> = (case writes ut_fact k (u # us) of
                      [] \<Rightarrow> map_of (facts m) k
                    | w # ws \<Rightarrow> Some (fact_of (last (w # ws))))"
    using step by (cases "writes ut_fact k us") (auto simp: writes_def)
  finally show ?case .
qed

lemma applyUpdates_preferences:
  "list_all (\<lambda>u. \<not> update_throws u) us \<Longrightarrow>
   map_of (preferences (snd (applyUpdates us m))) k =
     (case writes ut_preference k us of
        [] \<Rightarrow> map_of (preferences m) k
      | w # ws \<Rightarrow> Some (preference_of (last (w # ws))))"
proof (induction us arbitrary: m)
  case Nil
  then show ?case by (simp add: writes_def)
next
  case (Cons u us)
  from Cons.prems have ok: "\<not> update_throws u" and rest: "list_all (\<lambda>u. \<not> update_throws u) us"
    by simp_all
  obtain m1 where m1: "applyUpdate u m = Inr m1"
    using applyUpdate_ok [OF ok] by blast
  have step: "map_of (preferences m1) k =
                (if mu_type u = ut_preference \<and> mu_key u = k then Some (preference_of u)
                 else map_of (preferences m) k)"
    using m1 applyUpdate_ok [OF ok, of m]
    by (cases "mu_type u") (auto simp: update_conv')
  have "map_of (preferences (snd (applyUpdates (u # us) m))) k
          = map_of (preferences (snd (applyUpdates us m1))) k"
    by (simp add: m1)
  also have "\<dots> = (case writes ut_preference k us of
                      [] \<Rightarrow> map_of (preferences m1) k
                    | w # ws \<Rightarrow> Some (preference_of (last (w # ws))))"
    by (rule Cons.IH [OF rest])
  also have "\<dots> = (case writes ut_preference k (u # us) of
                      [] \<Rightarrow> map_of (preferences m) k
                    | w # ws \<Rightarrow> Some (preference_of (last (w # ws))))"
    using step by (cases "writes ut_preference k us") (auto simp: writes_def)
  finally show ?case .
qed

lemma applyUpdates_goals:
  "list_all (\<lambda>u. \<not> update_throws u) us \<Longrightarrow>
   goals (snd (applyUpdates us m)) = goals m @ map goal_of (filter (\<lambda>u. mu_type u = ut_goal) us)"
proof (induction us arbitrary: m)
  case Nil
  then show ?case by simp
next
  case (Cons u us)
  from Cons.prems have ok: "\<not> update_throws u" and rest: "list_all (\<lambda>u. \<not> update_throws u) us"
    by simp_all
  obtain m1 where m1: "applyUpdate u m = Inr m1"
    using applyUpdate_ok [OF ok] by blast
  have step: "goals m1 = (if mu_type u = ut_goal then goals m @ [goal_of u] else goals m)"
    using m1 applyUpdate_ok [OF ok, of m] by (cases "mu_type u") auto
  show ?case using Cons.IH [OF rest, of m1] step by (simp add: m1)
qed

lemma applyUpdates_reorder:
  assumes "list_all (\<lambda>u. \<not> update_throws u) us" and "list_all (\<lambda>u. \<not> update_throws u) vs"
    and "\<And>k. writes ut_fact k us = writes ut_fact k vs"
    and "\<And>k. writes ut_preference k us = writes ut_preference k vs"
  shows "map_of (facts (snd (applyUpdates us m))) = map_of (facts (snd (applyUpdates vs m)))
         \<and> map_of (preferences (snd (applyUpdates us m)))
             = map_of (preferences (snd (applyUpdates vs m)))"
  using assms by (auto simp: applyUpdates_facts applyUpdates_preferences fun_eq_iff)

lemma writes_swap:
  "mu_key a \<noteq> mu_key b \<or> mu_type a \<noteq> mu_type b \<Longrightarrow>
   writes ty k (xs @ a # b # ys) = writes ty k (xs @ b # a # ys)"
  by (auto simp: writes_def)

subsection \<open>Task execution\<close>

lemma heap_getOrCreateMemory: "heap (snd (getOrCreateMemory sid s)) = heap s"
  by (simp add: getOrCreateMemory_def split: option.splits)

lemma heap_put_memory: "heap (put_memory sid m s) = heap s"
  by (simp add: put_memory_def)

lemma heap_push_history: "heap (push_history sid e s) = heap s"
proof (cases "getOrCreateMemory sid s")
  case (Pair m s1)
  with heap_getOrCreateMemory [of sid s] have "heap s1 = heap s" by simp
  with Pair show ?thesis by (simp add: push_history_def heap_put_memory)
qed

lemma heap_push_goal: "heap (push_goal sid g s) = heap s"
proof (cases "getOrCreateMemory sid s")
  case (Pair m s1)
  with heap_getOrCreateMemory [of sid s] have "heap s1 = heap s" by simp
  with Pair show ?thesis by (simp add: push_goal_def heap_put_memory)
qed

lemma heap_updateMemory: "heap (snd (updateMemory sid us s)) = heap s"
proof (cases "getOrCreateMemory sid s")
  case (Pair m s1)
  with heap_getOrCreateMemory [of sid s] have "heap s1 = heap s" by simp
  with Pair show ?thesis
    by (cases "applyUpdates us m") (simp add: updateMemory_def heap_put_memory)
qed

lemma heap_extractMemoryUpdates: "heap (snd (extractMemoryUpdates w s)) = heap s"
  by (simp add: extractMemoryUpdates_def Let_def split: option.splits)

lemma heap_decomposeGoalIntoTasks: "heap (snd (decomposeGoalIntoTasks w g s)) = heap s"
  by (simp add: decomposeGoalIntoTasks_def Let_def split: option.splits)

lemma heap_routeToAgent: "heap (snd (routeToAgent w req s)) = heap s"
proof (cases "getOrCreateMemory (sessionId_of req) s")
  case (Pair m s1)
  with heap_getOrCreateMemory [of "sessionId_of req" s] have "heap s1 = heap s" by simp
  with Pair show ?thesis by (simp add: routeToAgent_def Let_def)
qed

lemma heap_dispatch_try: "heap (snd (dispatch_try w a req s)) = heap s"
proof -
  have tail: "heap (snd (updateMemory sid (fst (extractMemoryUpdates w (push_history sid e s1)))
                           (snd (extractMemoryUpdates w (push_history sid e s1))))) = heap s1"
    for sid e s1
    by (simp add: heap_updateMemory heap_extractMemoryUpdates heap_push_history)
  show ?thesis
    using tail
    by (auto simp: dispatch_try_def Let_def split_beta
             split: sum.splits http_outcome.splits option.splits)
qed

lemma heap_dispatch: "heap (snd (dispatch w a req s)) = heap s"
  using heap_dispatch_try [of w a req s]
  by (cases "dispatch_try w a req s") (auto simp: dispatch_def split: sum.splits)

lemma heap_register_tasks: "heap (snd (register_tasks sid ts s)) = heap s @ ts"
proof (cases "getOrCreateMemory sid s")
  case (Pair m s1)
  with heap_getOrCreateMemory [of sid s] have "heap s1 = heap s" by simp
  with Pair show ?thesis by (simp add: register_tasks_def Let_def)
qed

lemma length_heap_start_task: "length (heap (start_task a s)) = length (heap s)"
  by (simp add: start_task_def)

lemma length_heap_finish_task: "length (heap (finish_task a r s)) = length (heap s)"
  by (simp add: finish_task_def)

lemma execute_task_heap:
  assumes "heap_monotone exec" and "execute_task exec a req s = Some (r, s')"
  shows "length (heap s) \<le> length (heap s')"
proof -
  let ?s1 = "start_task a s"
  let ?req = "\<lparr> message = description (heap ?s1 ! a), req_context = req_context req \<rparr>"
  from assms(2) obtain s2 where run: "exec (agent (heap ?s1 ! a)) ?req ?s1 = Some (r, s2)"
    and fin: "s' = finish_task a r s2"
    by (auto simp: execute_task_def Let_def split: option.splits)
  from assms(1) run have "length (heap ?s1) \<le> length (heap s2)"
    unfolding heap_monotone_def by blast
  with fin show ?thesis by (simp add: length_heap_start_task length_heap_finish_task)
qed

lemma executeOrchestrator_heap:
  assumes mono: "heap_monotone exec" and run: "executeOrchestrator exec w req s = Some (r, s')"
  shows "length (heap s) \<le> length (heap s')"
proof -
  let ?sid = "sessionId_of req"
  obtain mem s0 where s0: "getOrCreateMemory ?sid s = (mem, s0)" by (cases "getOrCreateMemory ?sid s")
  with heap_getOrCreateMemory [of ?sid s] have h0: "heap s0 = heap s" by simp
  let ?s1 = "s0\<lparr>tick := tick s0 + 1\<rparr>"
  show ?thesis
  proof (cases "llm_goal w (tick s0)")
    case (Inl e)
    with run s0 have "s' = ?s1" by (simp add: executeOrchestrator_def Let_def)
    with h0 show ?thesis by simp
  next
    case (Inr ga)
    show ?thesis
    proof (cases "truthy (is_complex ga)")
      case False
      obtain routing s2 where rt: "routeToAgent w req ?s1 = (routing, s2)"
        by (cases "routeToAgent w req ?s1")
      with heap_routeToAgent [of w req ?s1] have h2: "heap s2 = heap s" by (simp add: h0)
      from run s0 Inr False rt have "exec (route_agent routing) req s2 = Some (r, s')"
        by (simp add: executeOrchestrator_def Let_def)
      with mono have "length (heap s2) \<le> length (heap s')"
        unfolding heap_monotone_def by blast
      with h2 show ?thesis by simp
    next
      case True
      obtain ts s2 where dc: "decomposeGoalIntoTasks w (ga_goal ga) ?s1 = (ts, s2)"
        by (cases "decomposeGoalIntoTasks w (ga_goal ga) ?s1")
      with heap_decomposeGoalIntoTasks [of w "ga_goal ga" ?s1] have h2: "heap s2 = heap s"
        by (simp add: h0)
      obtain addrs s3 where rg: "register_tasks ?sid ts s2 = (addrs, s3)"
        by (cases "register_tasks ?sid ts s2")
      with heap_register_tasks [of ?sid ts s2] have h3: "heap s3 = heap s @ ts" by (simp add: h2)
      let ?s4 = "push_goal ?sid (ga_goal ga) s3"
      have h4: "heap ?s4 = heap s @ ts" by (simp add: heap_push_goal h3)
      show ?thesis
      proof (cases "firstTask ts")
        case None
        with run s0 Inr True dc rg have "s' = ?s4"
          by (simp add: executeOrchestrator_def Let_def)
        with h4 show ?thesis by simp
      next
        case (Some i)
        with run s0 Inr True dc rg obtain r5 where
          "execute_task exec (addrs ! i) req ?s4 = Some (r5, s')"
          by (auto simp: executeOrchestrator_def Let_def split: option.splits)
        from execute_task_heap [OF mono this] h4 show ?thesis by simp
      qed
    qed
  qed
qed

lemma executeAgent_heap: "heap_monotone (executeAgent n w)"
proof (induction n)
  case 0
  show ?case
    unfolding heap_monotone_def
  proof (intro allI impI)
    fix a req s r s'
    assume "executeAgent 0 w a req s = Some (r, s')"
    then have "(r, s') = dispatch w a req (push_history (sessionId_of req)
                 \<lparr> h_role = user, h_content = Str (message req), h_timestamp = clock w (tick s) \<rparr> s)"
      by (simp add: Let_def split: if_splits)
    then have "heap s' = heap s"
      by (metis heap_dispatch heap_push_history snd_conv)
    then show "length (heap s) \<le> length (heap s')" by simp
  qed
next
  case (Suc n)
  show ?case
    unfolding heap_monotone_def
  proof (intro allI impI)
    fix a req s r s'
    let ?s1 = "push_history (sessionId_of req)
                 \<lparr> h_role = user, h_content = Str (message req), h_timestamp = clock w (tick s) \<rparr> s"
    assume run: "executeAgent (Suc n) w a req s = Some (r, s')"
    show "length (heap s) \<le> length (heap s')"
    proof (cases "a = Some ''orchestrator''")
      case True
      with run have "executeOrchestrator (executeAgent n w) w req ?s1 = Some (r, s')"
        by (simp add: Let_def)
      from executeOrchestrator_heap [OF Suc.IH this] show ?thesis
        by (simp add: heap_push_history)
    next
      case False
      with run have "(r, s') = dispatch w a req ?s1" by (simp add: Let_def)
      then have "heap s' = heap s"
        by (metis heap_dispatch heap_push_history snd_conv)
      then show ?thesis by simp
    qed
  qed
qed

text \<open>
  C1, as the code has it. Executing a task marks it \<open>in_progress\<close>, dispatches its
  description to its assigned handler, and then marks it \<open>completed\<close> and stores the
  response, whatever the response is: also when the dispatch failed and the response is
  the degraded one. No path marks a task \<open>failed\<close>, and nothing is retried. For a
  handler other than the orchestrator the execution always returns.
\<close>

theorem execute_task_always_completes:
  assumes "a < length (heap s)"
  shows "(agent (heap s ! a) \<noteq> Some ''orchestrator''
            \<longrightarrow> (\<exists>r s'. execute_task (executeAgent n w) a req s = Some (r, s')))
         \<and> (\<forall>r s'. execute_task (executeAgent n w) a req s = Some (r, s') \<longrightarrow>
               status (heap (start_task a s) ! a) = in_progress
               \<and> (\<exists>s2. executeAgent n w (agent (heap s ! a))
                         \<lparr> message = description (heap s ! a), req_context = req_context req \<rparr>
                         (start_task a s) = Some (r, s2)
                       \<and> s' = finish_task a r s2)
               \<and> status (heap s' ! a) = completed
               \<and> status (heap s' ! a) \<noteq> failed
               \<and> result (heap s' ! a) = Some r
               \<and> (agent (heap s ! a) \<noteq> Some ''orchestrator'' \<and> dispatch_fails (http w (tick s))
                    \<longrightarrow> (\<exists>e. r = degraded_response (agent (heap s ! a)) e)))"
proof -
  let ?s1 = "start_task a s"
  let ?req = "\<lparr> message = description (heap s ! a), req_context = req_context req \<rparr>"
  have same: "agent (heap ?s1 ! a) = agent (heap s ! a)"
             "description (heap ?s1 ! a) = description (heap s ! a)"
             "status (heap ?s1 ! a) = in_progress"
    using assms by (simp_all add: start_task_def)
  have returns: "\<exists>r s'. execute_task (executeAgent n w) a req s = Some (r, s')"
    if "agent (heap s ! a) \<noteq> Some ''orchestrator''"
  proof -
    from executeAgent_handler [OF that, of n w ?req ?s1]
    obtain r s2 where "executeAgent n w (agent (heap s ! a)) ?req ?s1 = Some (r, s2)"
      by (metis surj_pair)
    then show ?thesis by (simp add: execute_task_def Let_def same)
  qed
  have after: "status (heap (start_task a s) ! a) = in_progress
               \<and> (\<exists>s2. executeAgent n w (agent (heap s ! a)) ?req (start_task a s) = Some (r, s2)
                       \<and> s' = finish_task a r s2)
               \<and> status (heap s' ! a) = completed
               \<and> status (heap s' ! a) \<noteq> failed
               \<and> result (heap s' ! a) = Some r
               \<and> (agent (heap s ! a) \<noteq> Some ''orchestrator'' \<and> dispatch_fails (http w (tick s))
                    \<longrightarrow> (\<exists>e. r = degraded_response (agent (heap s ! a)) e))"
    if ex: "execute_task (executeAgent n w) a req s = Some (r, s')" for r s'
  proof -
    from ex obtain s2 where
      run: "executeAgent n w (agent (heap s ! a)) ?req ?s1 = Some (r, s2)"
      and fin: "s' = finish_task a r s2"
      by (auto simp: execute_task_def Let_def same split: option.splits)
    from executeAgent_heap [of n w] run have "length (heap ?s1) \<le> length (heap s2)"
      unfolding heap_monotone_def by blast
    with assms have a2: "a < length (heap s2)" by (simp add: length_heap_start_task)
    with fin have fin_st: "status (heap s' ! a) = completed" "result (heap s' ! a) = Some r"
      by (simp_all add: finish_task_def)
    have "\<exists>e. r = degraded_response (agent (heap s ! a)) e"
      if h: "agent (heap s ! a) \<noteq> Some ''orchestrator''" "dispatch_fails (http w (tick s))"
    proof -
      let ?s1h = "push_history (sessionId_of ?req)
                   \<lparr> h_role = user, h_content = Str (message ?req),
                     h_timestamp = clock w (tick ?s1) \<rparr> ?s1"
      from run executeAgent_handler [OF h(1), of n w ?req ?s1]
      have d: "dispatch w (agent (heap s ! a)) ?req ?s1h = (r, s2)" by simp
      have "tick ?s1h = tick s" by (simp add: tick_push_history start_task_def)
      with h(2) have "dispatch_fails (http w (tick ?s1h))" by simp
      from dispatch_degraded [OF this, of "agent (heap s ! a)" ?req] d show ?thesis by auto
    qed
    with same(3) run fin fin_st show ?thesis by auto
  qed
  from returns after show ?thesis by blast
qed

theorem execute_task_always_completes_witness:
  "0 < length (heap one_task_orch)
   \<and> agent (heap one_task_orch ! 0) \<noteq> Some ''orchestrator''
   \<and> dispatch_fails (http quiet_world (tick one_task_orch))
   \<and> (\<exists>r s'. execute_task (executeAgent 0 quiet_world) 0 call_request one_task_orch = Some (r, s')
             \<and> status (heap s' ! 0) = completed
             \<and> (\<exists>e. r = degraded_response (agent (heap one_task_orch ! 0)) e))"
proof -
  have h1: "0 < length (heap one_task_orch)"
    by (simp add: one_task_orch_def)
  have h2: "agent (heap one_task_orch ! 0) \<noteq> Some ''orchestrator''"
    by (simp add: one_task_orch_def task_low_def)
  have h3: "dispatch_fails (http quiet_world (tick one_task_orch))"
    by (simp add: dispatch_fails_def quiet_world_def)
  from execute_task_always_completes [OF h1, of 0 quiet_world call_request] h2 h3
  have "\<exists>r s'. execute_task (executeAgent 0 quiet_world) 0 call_request one_task_orch = Some (r, s')
             \<and> status (heap s' ! 0) = completed
             \<and> (\<exists>e. r = degraded_response (agent (heap one_task_orch ! 0)) e)"
    by blast
  with h1 h2 h3 show ?thesis by blast
qed

text \<open>
  The claim as stated fails on a failed dispatch: the orchestrator decomposes a goal into
  three tasks, the call to the handler of the first one fails at the transport level, and
  the task ends \<open>completed\<close>, with the degraded response as its result.
\<close>

theorem failed_dispatch_task_completed_counterexample:
  "dispatch_fails (http plan_world 2)
   \<and> map status (final_tasks (executeAgent 1 plan_world (Some ''orchestrator'') call_request
                                empty_orch))
       = [completed, pending, pending]
   \<and> map result (final_tasks (executeAgent 1 plan_world (Some ''orchestrator'') call_request
                                empty_orch))
       = [Some (degraded_response (Some ''crm'') (Error ''down'')), None, None]"
  by code_simp

subsection \<open>Memory updates: a goal update without a value\<close>

text \<open>
  C7. Applying a list of memory updates and reading back facts and preferences yields the
  value of the last update per key, whatever the order of the updates to different keys, and
  every goal update appends a goal. The lemmas \<open>applyUpdates_facts\<close>,
  \<open>applyUpdates_preferences\<close>, \<open>applyUpdates_reorder\<close> and \<open>applyUpdates_goals\<close> above
  prove this for the lists on which the loop does not throw. The code departs from it on a
  goal update whose value is \<open>null\<close>: the loop throws a \<open>TypeError\<close> there, no goal is
  appended, and the fact update behind it is lost, where it is stored when the two updates
  come in the other order.
\<close>

theorem updateMemory_null_goal_failing_input:
  "fst (updateMemory ''s1'' [goal_null, fact_diet] empty_orch) = Some TypeError
   \<and> map_option goals (getMemory ''s1'' (snd (updateMemory ''s1'' [goal_null, fact_diet] empty_orch)))
       = Some []
   \<and> map_option facts (getMemory ''s1'' (snd (updateMemory ''s1'' [goal_null, fact_diet] empty_orch)))
       = Some []
   \<and> map_option facts (getMemory ''s1'' (snd (updateMemory ''s1'' [fact_diet, goal_null] empty_orch)))
       = Some [(''diet'', fact_of fact_diet)]"
  by code_simp

subsection \<open>Clearing a session\<close>

lemma getMemory_put_memory:
  "getMemory sid' (put_memory sid m s) = (if sid' = sid then Some m else getMemory sid' s)"
  by (simp add: getMemory_def put_memory_def update_conv')

text \<open>
  C9. The \<open>clear_memory\<close> operation resets the conversation history, the facts, the
  preferences, the context and the goals of the session to empty and leaves its tasks, the
  other sessions, the task queue and the task objects as they are; a session that does not
  exist is not created. It is one step that awaits no external call (the tick does not
  move), so no state between the five assignments is there to be observed.
\<close>

theorem clear_memory_resets:
  "(getMemory sid s = Some m \<longrightarrow>
      getMemory sid (clear_memory sid s)
        = Some (m\<lparr>conversation_history := [], facts := [], preferences := [],
                   m_context := [], goals := []\<rparr>))
   \<and> (getMemory sid s = None \<longrightarrow> clear_memory sid s = s)
   \<and> (sid' \<noteq> sid \<longrightarrow> getMemory sid' (clear_memory sid s) = getMemory sid' s)
   \<and> tick (clear_memory sid s) = tick s
   \<and> heap (clear_memory sid s) = heap s
   \<and> taskQueue (clear_memory sid s) = taskQueue s"
  by (cases "getMemory sid s")
     (simp_all add: clear_memory_def getMemory_put_memory, simp_all add: put_memory_def)

theorem clear_memory_resets_witness:
  "getMemory ''s1'' busy_orch \<noteq> None
   \<and> map_option conversation_history (getMemory ''s1'' (clear_memory ''s1'' busy_orch)) = Some []
   \<and> map_option facts (getMemory ''s1'' (clear_memory ''s1'' busy_orch)) = Some []
   \<and> map_option preferences (getMemory ''s1'' (clear_memory ''s1'' busy_orch)) = Some []
   \<and> map_option m_context (getMemory ''s1'' (clear_memory ''s1'' busy_orch)) = Some []
   \<and> map_option goals (getMemory ''s1'' (clear_memory ''s1'' busy_orch)) = Some []
   \<and> map_option tasks (getMemory ''s1'' (clear_memory ''s1'' busy_orch)) = Some [(''task_1'', 0)]
   \<and> getMemory ''s2'' (clear_memory ''s1'' busy_orch) = getMemory ''s2'' busy_orch
   \<and> getMemory ''s3'' busy_orch = None
   \<and> clear_memory ''s3'' busy_orch = busy_orch"
proof -
  obtain m where m: "getMemory ''s1'' busy_orch = Some m"
    and t: "tasks m = [(''task_1'', 0)]"
    by (simp add: getMemory_def busy_orch_def)
  have n: "getMemory ''s3'' busy_orch = None"
    by (simp add: getMemory_def busy_orch_def new_memory_def)
  from clear_memory_resets [of "''s1''" busy_orch m "''s2''"] m
  have a: "getMemory ''s1'' (clear_memory ''s1'' busy_orch)
             = Some (m\<lparr>conversation_history := [], facts := [], preferences := [],
                        m_context := [], goals := []\<rparr>)"
    and b: "getMemory ''s2'' (clear_memory ''s1'' busy_orch) = getMemory ''s2'' busy_orch"
    by simp_all
  from clear_memory_resets [of "''s3''" busy_orch m "''s2''"] n
  have c: "clear_memory ''s3'' busy_orch = busy_orch" by simp
  from a b c m n t show ?thesis by simp
qed

subsection \<open>Campaign execution\<close>

lemma send_try_skip:
  "\<not> sends_to st c \<Longrightarrow> send_try w st v c (res, t) = (None, res, t + 1)"
  by (simp add: send_try_def sends_to_def Let_def)

lemma send_to_customer_skip:
  "\<not> sends_to st c \<Longrightarrow> fst (send_to_customer w st v c rt) = fst rt"
  by (cases rt) (simp add: send_to_customer_def send_try_skip)

lemma send_to_customer_count:
  "sent (fst (send_to_customer w st v c rt)) + failed' (fst (send_to_customer w st v c rt))
     = sent (fst rt) + failed' (fst rt) + (if sends_to st c then 1 else 0)"
proof (cases rt)
  case (Pair res t)
  show ?thesis
  proof (cases "sends_to st c")
    case False
    with send_to_customer_skip [OF False, of w v rt] show ?thesis by simp
  next
    case True
    then show ?thesis
      by (cases "personalizeContent (v_content v) c")
         (auto simp: Pair send_to_customer_def send_try_def sends_to_def Let_def)
  qed
qed

lemma fold_send_count:
  "sent (fst (fold (send_to_customer w st v) cs rt))
     + failed' (fst (fold (send_to_customer w st v) cs rt))
   = sent (fst rt) + failed' (fst rt) + length (filter (sends_to st) cs)"
proof (induction cs arbitrary: rt)
  case Nil
  then show ?case by simp
next
  case (Cons c cs)
  show ?case
    using Cons.IH [of "send_to_customer w st v c rt"] send_to_customer_count [of w st v c rt]
    by simp
qed

lemma run_variant_count:
  "sent (fst (run_variant w st v (res, t))) + failed' (fst (run_variant w st v (res, t)))
   = sent res + failed' res + length (filter (sends_to st) (resolve_segment w st v t))"
  using fold_send_count [of w st v "resolve_segment w st v t" "(res, t + 1)"]
  by (simp add: run_variant_def Let_def)

lemma fold_run_variant_count:
  "\<exists>ts. length ts = length vs
        \<and> sent (fst (fold (run_variant w st) vs rt)) + failed' (fst (fold (run_variant w st) vs rt))
          = sent (fst rt) + failed' (fst rt)
            + sum_list (map (\<lambda>(v, tq). length (filter (sends_to st) (resolve_segment w st v tq)))
                          (zip vs ts))"
proof (induction vs arbitrary: rt)
  case Nil
  then show ?case by simp
next
  case (Cons v vs)
  obtain res t where rt: "rt = (res, t)" by (cases rt)
  let ?rt1 = "run_variant w st v (res, t)"
  from Cons.IH [of ?rt1] obtain ts where ts: "length ts = length vs"
    and eq: "sent (fst (fold (run_variant w st) vs ?rt1))
               + failed' (fst (fold (run_variant w st) vs ?rt1))
             = sent (fst ?rt1) + failed' (fst ?rt1)
               + sum_list (map (\<lambda>(v, tq). length (filter (sends_to st) (resolve_segment w st v tq)))
                             (zip vs ts))"
    by blast
  have "length (t # ts) = length (v # vs)" using ts by simp
  moreover have "sent (fst (fold (run_variant w st) (v # vs) rt))
                   + failed' (fst (fold (run_variant w st) (v # vs) rt))
                 = sent (fst rt) + failed' (fst rt)
                   + sum_list (map (\<lambda>(v, tq). length (filter (sends_to st)
                                                    (resolve_segment w st v tq)))
                                 (zip (v # vs) (t # ts)))"
    using eq run_variant_count [of w st v res t] by (simp add: rt)
  ultimately show ?case by blast
qed

lemma resolve_segment_steady:
  assumes "\<forall>tq q ps. db_customers w tq q ps = db_customers w 0 q ps"
  shows "resolve_segment w st v tq = resolve_segment w st v 0"
proof -
  have "db_customers w tq = db_customers w 0"
    using assms by (intro ext) blast
  then show ?thesis by (simp add: resolve_segment_def Let_def)
qed

lemma sum_zip_steady:
  assumes "length ts = length vs" and "\<And>v tq. f v tq = g v"
  shows "sum_list (map (\<lambda>(v, tq). f v tq) (zip vs ts)) = sum_list (map g vs)"
proof -
  have "map (\<lambda>(v, tq). f v tq) (zip vs ts) = map g (map fst (zip vs ts))"
    using assms(2) by (simp add: case_prod_beta)
  also have "map fst (zip vs ts) = vs" using assms(1) by simp
  finally show ?thesis by simp
qed

lemma executeCampaign_counts_sends_to:
  assumes "content_variants st = Some vs" and "vs \<noteq> []"
  shows "\<exists>st' t' res ts.
           executeCampaign w st t = Inr (st', t')
           \<and> execution_results st' = Some res
           \<and> length ts = length vs
           \<and> sent res + failed' res
               = sum_list (map (\<lambda>(v, tq). length (filter (sends_to st) (resolve_segment w st v tq)))
                             (zip vs ts))
           \<and> ((\<forall>tq q ps. db_customers w tq q ps = db_customers w 0 q ps) \<longrightarrow>
                sent res + failed' res
                  = sum_list (map (\<lambda>v. length (filter (sends_to st) (resolve_segment w st v 0))) vs))
           \<and> (\<forall>v c rt. \<not> sends_to st c \<longrightarrow> fst (send_to_customer w st v c rt) = fst rt)"
proof -
  let ?r0 = "\<lparr> sent = 0, delivered = 0, failed' = 0, errors = [] \<rparr>"
  obtain res t1 where f: "fold (run_variant w st) vs (?r0, t) = (res, t1)"
    by (cases "fold (run_variant w st) vs (?r0, t)")
  from fold_run_variant_count [of vs w st "(?r0, t)"] obtain ts where
    ts: "length ts = length vs"
    and eq: "sent res + failed' res
             = sum_list (map (\<lambda>(v, tq). length (filter (sends_to st) (resolve_segment w st v tq)))
                           (zip vs ts))"
    by (auto simp: f)
  have steady: "sent res + failed' res
                  = sum_list (map (\<lambda>v. length (filter (sends_to st) (resolve_segment w st v 0))) vs)"
    if "\<forall>tq q ps. db_customers w tq q ps = db_customers w 0 q ps"
  proof -
    have "length (filter (sends_to st) (resolve_segment w st v tq))
            = length (filter (sends_to st) (resolve_segment w st v 0))" for v tq
      using resolve_segment_steady [OF that, of st v tq] by simp
    from sum_zip_steady [OF ts, of "\<lambda>v tq. length (filter (sends_to st) (resolve_segment w st v tq))"
                                   "\<lambda>v. length (filter (sends_to st) (resolve_segment w st v 0))",
                         OF this] eq
    show ?thesis by simp
  qed
  let ?st' = "st\<lparr>current_step := ''execution_complete'',
                   steps_completed := steps_completed st @ [''execute_campaign''],
                   execution_results := Some res\<rparr>"
  have run: "executeCampaign w st t = Inr (?st', t1 + 1)"
    using assms f by (simp add: executeCampaign_def Let_def)
  have stored: "execution_results ?st' = Some res" by simp
  have skip: "\<forall>v c rt. \<not> sends_to st c \<longrightarrow> fst (send_to_customer w st v c rt) = fst rt"
    using send_to_customer_skip by blast
  from run stored ts eq steady skip show ?thesis
    by (intro exI [of _ ?st'] exI [of _ "t1 + 1"] exI [of _ res] exI [of _ ts]) blast
qed

lemma sends_to_iff:
  assumes "cd_type (campaign_data st) = Some email_channel
           \<or> cd_type (campaign_data st) = Some sms_channel"
  shows "sends_to st c
           = (spec_opted_in (cd_type (campaign_data st)) c
              \<and> has_address (cd_type (campaign_data st)) c)"
  using assms
  by (auto simp: sends_to_def email_ok_def sms_ok_def spec_opted_in_def has_address_def)

lemma multi_channel_sends_to_nobody:
  "cd_type (campaign_data st) = Some multi_channel \<Longrightarrow> \<not> sends_to st c"
  by (simp add: sends_to_def email_ok_def sms_ok_def)

text \<open>
  C4, as the code has it. For every execution of an e-mail or SMS campaign (with at least
  one content variant), the final results satisfy \<open>sent + failed\<close> = the number of
  customers, over the segments as the database resolved them for each variant, that are
  opted into the campaign's channel type and have a non-empty address for it (when the
  database answers a segment query the same at any time of the run, these are the customers
  of each variant's segment); a customer who is not opted in, or has no address for the
  channel, leaves the results as they are: counted in neither \<open>sent\<close> nor \<open>failed\<close>,
  and no entry in \<open>errors\<close>.
\<close>

theorem executeCampaign_counts_opted_in_with_address:
  assumes "content_variants st = Some vs" and "vs \<noteq> []"
    and "cd_type (campaign_data st) = Some email_channel
         \<or> cd_type (campaign_data st) = Some sms_channel"
  shows "\<exists>st' t' res ts.
           executeCampaign w st t = Inr (st', t')
           \<and> execution_results st' = Some res
           \<and> length ts = length vs
           \<and> sent res + failed' res
               = sum_list
                   (map (\<lambda>(v, tq).
                           length (filter (\<lambda>c. spec_opted_in (cd_type (campaign_data st)) c
                                               \<and> has_address (cd_type (campaign_data st)) c)
                                     (resolve_segment w st v tq)))
                      (zip vs ts))
           \<and> ((\<forall>tq q ps. db_customers w tq q ps = db_customers w 0 q ps) \<longrightarrow>
                sent res + failed' res
                  = sum_list
                      (map (\<lambda>v. length (filter (\<lambda>c. spec_opted_in (cd_type (campaign_data st)) c
                                                     \<and> has_address (cd_type (campaign_data st)) c)
                                           (resolve_segment w st v 0)))
                         vs))
           \<and> (\<forall>v c rt. \<not> (spec_opted_in (cd_type (campaign_data st)) c
                           \<and> has_address (cd_type (campaign_data st)) c)
                  \<longrightarrow> fst (send_to_customer w st v c rt) = fst rt)"
proof -
  have guard: "sends_to st = (\<lambda>c. spec_opted_in (cd_type (campaign_data st)) c
                                   \<and> has_address (cd_type (campaign_data st)) c)"
    using sends_to_iff [OF assms(3)] by (intro ext) simp
  from executeCampaign_counts_sends_to [OF assms(1,2), of w t]
  show ?thesis unfolding guard .
qed

lemma scenario_run:
  "campaign_results (executeCampaign scenario_world scenario_state 0)
     = Some \<lparr> sent = 2, delivered = 2, failed' = 0, errors = [] \<rparr>"
  by code_simp

theorem executeCampaign_counts_opted_in_with_address_witness:
  "content_variants scenario_state = Some [variant_loyal, variant_sms]
   \<and> [variant_loyal, variant_sms] \<noteq> []
   \<and> cd_type (campaign_data scenario_state) = Some email_channel
   \<and> \<not> spec_opted_in (Some email_channel) carol
   \<and> fst (send_to_customer scenario_world scenario_state variant_loyal carol
              (\<lparr> sent = 2, delivered = 2, failed' = 0, errors = [] \<rparr>, 5))
       = \<lparr> sent = 2, delivered = 2, failed' = 0, errors = [] \<rparr>
   \<and> (\<exists>st' t'. executeCampaign scenario_world scenario_state 0 = Inr (st', t')
               \<and> execution_results st' = Some \<lparr> sent = 2, delivered = 2, failed' = 0, errors = [] \<rparr>)"
proof -
  have h1: "content_variants scenario_state = Some [variant_loyal, variant_sms]"
    by (simp add: scenario_state_def)
  have h2: "[variant_loyal, variant_sms] \<noteq> []" by simp
  have h3: "cd_type (campaign_data scenario_state) = Some email_channel"
    by (simp add: scenario_state_def initialState_def scenario_input_def)
  have h4: "\<not> spec_opted_in (Some email_channel) carol"
    by (simp add: spec_opted_in_def carol_def)
  from executeCampaign_counts_opted_in_with_address [OF h1 h2 disjI1 [OF h3], of scenario_world 0]
  obtain st' t' res where run: "executeCampaign scenario_world scenario_state 0 = Inr (st', t')"
    and res: "execution_results st' = Some res"
    and skip: "\<forall>v c rt. \<not> (spec_opted_in (cd_type (campaign_data scenario_state)) c
                             \<and> has_address (cd_type (campaign_data scenario_state)) c)
                 \<longrightarrow> fst (send_to_customer scenario_world scenario_state v c rt) = fst rt"
    by blast
  from scenario_run run res
  have counted: "execution_results st' = Some \<lparr> sent = 2, delivered = 2, failed' = 0, errors = [] \<rparr>"
    by (simp add: campaign_results_def)
  from skip h3 h4
  have "fst (send_to_customer scenario_world scenario_state variant_loyal carol
               (\<lparr> sent = 2, delivered = 2, failed' = 0, errors = [] \<rparr>, 5))
        = \<lparr> sent = 2, delivered = 2, failed' = 0, errors = [] \<rparr>"
    by simp
  with run counted h1 h2 h3 h4 show ?thesis by blast
qed

text \<open>
  The claim as stated fails on a customer whose record has the e-mail opt-in but no e-mail
  address: of the two customers of the resolved segment that are opted into e-mail, only
  the one with an address is sent to, and the other is counted in neither \<open>sent\<close> nor
  \<open>failed\<close>.
\<close>

theorem executeCampaign_flag_without_address_counterexample:
  "cd_type (campaign_data loyal_state) = Some email_channel
   \<and> content_variants loyal_state = Some [variant_loyal]
   \<and> resolve_segment noaddress_world loyal_state variant_loyal 0 = [alice, erin]
   \<and> length (filter (spec_opted_in (Some email_channel))
               (resolve_segment noaddress_world loyal_state variant_loyal 0)) = 2
   \<and> campaign_results (executeCampaign noaddress_world loyal_state 0)
       = Some \<lparr> sent = 1, delivered = 1, failed' = 0, errors = [] \<rparr>"
  by code_simp

lemma send_to_customer_catches:
  assumes "sends_to st c" and "personalizeContent (v_content v) c = Inl e"
  shows "send_to_customer w st v c (res, t) =
           (res\<lparr>failed' := failed' res + 1,
                errors := errors res @ [''Customer '' @ c_id c @ '': '' @ error_message e]\<rparr>, t)"
  using assms by (auto simp: send_to_customer_def send_try_def sends_to_def Let_def)

text \<open>
  C5. A customer's send failure is to be caught individually, to increment \<open>failed\<close> by
  one and to append its error text to \<open>errors\<close>, without stopping the sends to the
  customers after it. The loop does go on over every customer, and an error thrown inside
  the inner \<open>try\<close> is counted so (\<open>send_to_customer_catches\<close>); but a failed send is
  not thrown: \<open>sendEmail\<close> and \<open>sendSMS\<close> return \<open>success: false\<close>, which
  \<open>executeCampaign\<close> does not look at. With an e-mail client that rejects every
  message, both opted-in customers are counted as \<open>sent\<close> and \<open>delivered\<close>,
  \<open>failed\<close> stays 0 and \<open>errors\<close> stays empty.
\<close>

theorem failed_sends_counted_as_sent:
  "e_success (sendEmail \<lparr> em_to = ''alice@example.com'', em_subject = ''Thank you'',
                          em_html = Some ''Hi Alice'', em_text = None,
                          em_from = from_email bounce_world \<rparr> (resend bounce_world 1)) = False
   \<and> campaign_results (executeCampaign bounce_world scenario_state 0)
       = Some \<lparr> sent = 2, delivered = 2, failed' = 0, errors = [] \<rparr>"
  by code_simp

subsection \<open>The approval gate\<close>

lemma approval_merge_channels [simp]:
  "requires_approval (merge_channels cur upd) = requires_approval upd"
  by (simp add: merge_channels_def)

lemma step_merge_channels [simp]:
  "current_step (merge_channels cur upd) = current_step upd"
  by (simp add: merge_channels_def)

lemma approval_analyze [simp]:
  "requires_approval (fst (analyzeCustomerBase w st t)) = requires_approval st"
  by (simp add: analyzeCustomerBase_def Let_def split: llm_outcome.splits)

lemma approval_generate:
  "generateCampaignContent w st t = Inr (u, t') \<Longrightarrow> requires_approval u = requires_approval st"
  by (auto simp: generateCampaignContent_def split: option.splits if_splits)

lemma approval_execute:
  "executeCampaign w st t = Inr (u, t') \<Longrightarrow> requires_approval u = requires_approval st"
  by (auto simp: executeCampaign_def Let_def split: option.splits if_splits prod.splits)

lemma step_execute:
  "executeCampaign w st t = Inr (u, t') \<Longrightarrow> current_step u = ''execution_complete''"
  by (auto simp: executeCampaign_def Let_def split: option.splits if_splits prod.splits)

lemma approval_monitor [simp]:
  "requires_approval (fst (monitorCampaignResults w st t)) = requires_approval st"
  by (simp add: monitorCampaignResults_def split: llm_outcome.splits sum.splits)

lemma step_monitor:
  "current_step (fst (monitorCampaignResults w st t)) \<noteq> ''content_generated''"
  by (simp add: monitorCampaignResults_def split: llm_outcome.splits sum.splits)

lemma step_analyze:
  "current_step (fst (analyzeCustomerBase w st t)) \<noteq> ''content_generated''"
  by (simp add: analyzeCustomerBase_def Let_def split: llm_outcome.splits)

lemma workflow_invoke_no_gate:
  assumes ra: "requires_approval st0 = Some False" and st: "current_step st0 \<noteq> ''content_generated''"
  shows "(\<forall>(node, s) \<in> set (fst (workflow_invoke w st0 t0)).
            requires_approval s = Some False \<and> after_generate_content s = ''execute_campaign'')
         \<and> (\<forall>s. snd (workflow_invoke w st0 t0) = Inr s \<longrightarrow>
               requires_approval s = Some False
               \<and> (node_names (workflow_invoke w st0 t0) = [''analyze_customers'']
                  \<or> node_names (workflow_invoke w st0 t0)
                      = [''analyze_customers'', ''generate_content'', ''execute_campaign'',
                         ''monitor_results'']))
         \<and> (\<forall>s. current_step s = ''content_generated''
                 \<and> (s \<in> snd ` set (fst (workflow_invoke w st0 t0))
                    \<or> snd (workflow_invoke w st0 t0) = Inr s)
               \<longrightarrow> ''execute_campaign'' \<in> set (node_names (workflow_invoke w st0 t0)))"
proof -
  obtain u1 t1 where a: "analyzeCustomerBase w st0 t0 = (u1, t1)"
    by (cases "analyzeCustomerBase w st0 t0")
  let ?s1 = "merge_channels st0 u1"
  from approval_analyze [of w st0 t0] a ra have r1: "requires_approval ?s1 = Some False" by simp
  from step_analyze [of w st0 t0] a have c1: "current_step ?s1 \<noteq> ''content_generated''" by simp
  have g0: "after_generate_content st0 = ''execute_campaign''"
    using ra by (simp add: after_generate_content_def)
  have g1: "after_generate_content ?s1 = ''execute_campaign''"
    using r1 by (simp add: after_generate_content_def)
  show ?thesis
  proof (cases "current_step ?s1 = ''analysis_complete''")
    case False
    with a have run: "workflow_invoke w st0 t0 = ([(''analyze_customers'', st0)], Inr ?s1)"
      by (simp add: workflow_invoke_def Let_def)
    show ?thesis using ra r1 g0 st c1 by (auto simp: run node_names_def)
  next
    case True
    show ?thesis
    proof (cases "generateCampaignContent w ?s1 t1")
      case (Inl e)
      with a True have run: "workflow_invoke w st0 t0
          = ([(''analyze_customers'', st0), (''generate_content'', ?s1)], Inl e)"
        by (simp add: workflow_invoke_def Let_def)
      show ?thesis using ra r1 g0 g1 st c1 by (auto simp: run node_names_def)
    next
      case (Inr p)
      then obtain u2 t2 where g: "generateCampaignContent w ?s1 t1 = Inr (u2, t2)"
        by (cases p) simp
      let ?s2 = "merge_channels ?s1 u2"
      from approval_generate [OF g] r1 have r2: "requires_approval ?s2 = Some False" by simp
      then have g2: "after_generate_content ?s2 = ''execute_campaign''"
        by (simp add: after_generate_content_def)
      show ?thesis
      proof (cases "executeCampaign w ?s2 t2")
        case (Inl e)
        with a True g g2 have run: "workflow_invoke w st0 t0
            = ([(''analyze_customers'', st0), (''generate_content'', ?s1),
                (''execute_campaign'', ?s2)], Inl e)"
          by (simp add: workflow_invoke_def Let_def)
        show ?thesis using ra r1 r2 g0 g1 g2 by (auto simp: run node_names_def)
      next
        case (Inr q)
        then obtain u3 t3 where e: "executeCampaign w ?s2 t2 = Inr (u3, t3)"
          by (cases q) simp
        let ?s3 = "merge_channels ?s2 u3"
        from approval_execute [OF e] r2 have r3: "requires_approval ?s3 = Some False" by simp
        then have g3: "after_generate_content ?s3 = ''execute_campaign''"
          by (simp add: after_generate_content_def)
        obtain u4 t4 where m: "monitorCampaignResults w ?s3 t3 = (u4, t4)"
          by (cases "monitorCampaignResults w ?s3 t3")
        let ?s4 = "merge_channels ?s3 u4"
        from approval_monitor [of w ?s3 t3] m r3 have r4: "requires_approval ?s4 = Some False"
          by simp
        from a True g g2 e m have run: "workflow_invoke w st0 t0
            = ([(''analyze_customers'', st0), (''generate_content'', ?s1),
                (''execute_campaign'', ?s2), (''monitor_results'', ?s3)], Inr ?s4)"
          by (simp add: workflow_invoke_def Let_def)
        show ?thesis using ra r1 r2 r3 r4 g0 g1 g2 g3 by (auto simp: run node_names_def)
      qed
    qed
  qed
qed

text \<open>
  C10. For every campaign created through \<open>createAdvancedCampaign\<close>, the initial state
  has \<open>requires_approval = false\<close> and \<open>approval_status = 'approved'\<close>, and no step of
  the workflow sets \<open>requires_approval\<close> to true: every state of the run has it false, so
  the router after \<open>generate_content\<close> always answers \<open>execute_campaign\<close>. A run that
  ends at \<open>END\<close> ends after \<open>analyze_customers\<close> or after \<open>monitor_results\<close>, never
  at the approval gate, and every run that reaches the step \<open>content_generated\<close> enters
  \<open>execute_campaign\<close>.
\<close>

theorem createAdvancedCampaign_never_awaits_approval:
  "requires_approval (initialState cid d) = Some False
   \<and> approval_status (initialState cid d) = Some approved
   \<and> (\<forall>(node, s) \<in> set (fst (createAdvancedCampaign w cid d t)).
         requires_approval s = Some False \<and> after_generate_content s = ''execute_campaign'')
   \<and> (\<forall>s. snd (createAdvancedCampaign w cid d t) = Inr s \<longrightarrow>
         requires_approval s = Some False
         \<and> (node_names (createAdvancedCampaign w cid d t) = [''analyze_customers'']
            \<or> node_names (createAdvancedCampaign w cid d t)
                = [''analyze_customers'', ''generate_content'', ''execute_campaign'',
                   ''monitor_results'']))
   \<and> (\<forall>s. current_step s = ''content_generated''
           \<and> (s \<in> snd ` set (fst (createAdvancedCampaign w cid d t))
              \<or> snd (createAdvancedCampaign w cid d t) = Inr s)
         \<longrightarrow> ''execute_campaign'' \<in> set (node_names (createAdvancedCampaign w cid d t)))"
proof -
  have ra: "requires_approval (initialState cid d) = Some False"
    and ap: "approval_status (initialState cid d) = Some approved"
    and st: "current_step (initialState cid d) \<noteq> ''content_generated''"
    by (simp_all add: initialState_def)
  have run: "createAdvancedCampaign w cid d t = workflow_invoke w (initialState cid d) (t + 1)"
    by (simp add: createAdvancedCampaign_def Let_def)
  from workflow_invoke_no_gate [OF ra st, of w "t + 1"] ra ap show ?thesis
    unfolding run node_names_def by blast
qed

lemma scenario_campaign:
  "node_names (createAdvancedCampaign scenario_world ''campaign_1'' scenario_input 0)
     = [''analyze_customers'', ''generate_content'', ''execute_campaign'', ''monitor_results'']
   \<and> map (current_step \<circ> snd) (fst (createAdvancedCampaign scenario_world ''campaign_1'' scenario_input 0))
     = [''initializing'', ''analysis_complete'', ''content_generated'', ''execution_complete'']"
  by code_simp

theorem createAdvancedCampaign_never_awaits_approval_witness:
  "node_names (createAdvancedCampaign scenario_world ''campaign_1'' scenario_input 0)
     = [''analyze_customers'', ''generate_content'', ''execute_campaign'', ''monitor_results'']
   \<and> map (current_step \<circ> snd)
         (fst (createAdvancedCampaign scenario_world ''campaign_1'' scenario_input 0))
     = [''initializing'', ''analysis_complete'', ''content_generated'', ''execution_complete'']
   \<and> list_all (\<lambda>(node, s). requires_approval s = Some False)
        (fst (createAdvancedCampaign scenario_world ''campaign_1'' scenario_input 0))"
proof -
  from createAdvancedCampaign_never_awaits_approval
         [of "''campaign_1''" scenario_input scenario_world 0]
  have "\<forall>(node, s) \<in> set (fst (createAdvancedCampaign scenario_world ''campaign_1''
                                    scenario_input 0)). requires_approval s = Some False"
    by blast
  then have "list_all (\<lambda>(node, s). requires_approval s = Some False)
               (fst (createAdvancedCampaign scenario_world ''campaign_1'' scenario_input 0))"
    by (simp add: list_all_iff)
  with scenario_campaign show ?thesis by blast
qed

end
